theory Spec2Isabelle
  imports Main "HOL-Library.AList" "HOL-Library.Sublist" "HOL-Library.Multiset"
begin

section \<open>ConverterTool core: value mapping, rendering, orchestration\<close>

text \<open>
  A shallow embedding of \<^verbatim>\<open>src/core/MappingProcessor.ts\<close>,
  \<^verbatim>\<open>src/core/NunjucksRenderer.ts\<close> and \<^verbatim>\<open>src/core/DataOrchestrator.ts\<close>.

  Conventions.
  \<^item> A plain object used as a dictionary (a TypeScript \<^verbatim>\<open>Record<string, T>\<close>) is the
    association list of its own properties, in the order of their creation.  Reading
    \<^verbatim>\<open>r[k]\<close> is \<open>get_prop r k\<close>: the own property, else the property of that name that
    every plain object inherits from \<^verbatim>\<open>Object.prototype\<close>, else \<^verbatim>\<open>undefined\<close>.  Writing
    \<^verbatim>\<open>r[k] = v\<close> is \<open>set_prop k v r\<close>, and \<^verbatim>\<open>Object.entries(r)\<close> is \<open>Object_entries r\<close>:
    array-index keys first, in ascending order, then the other keys in the order of
    their creation.
  \<^item> A field that the code itself tests for absence is an \<open>option\<close>; \<open>None\<close> is
    \<^verbatim>\<open>undefined\<close>.
  \<^item> JavaScript numbers are a type parameter \<open>'n\<close>; what the runtime does with them
    (printing, truthiness) and with dates (parsing, printing) is a parameter of type
    \<open>'n runtime\<close>.
  \<^item> A \<^verbatim>\<open>throw\<close> is the \<open>Inl\<close> branch of a sum.
\<close>

subsection \<open>JavaScript values and strings\<close>

record jstime =
  getFullYear :: int
  getMonth :: nat
  getDate :: nat
  getHours :: nat
  getMinutes :: nat
  getSeconds :: nat

datatype jsdate = InvalidDate | ValidDate jstime

text \<open>
  \<open>JInherited k\<close> is the value of the property \<open>k\<close> of \<^verbatim>\<open>Object.prototype\<close>: a function
  (for \<^verbatim>\<open>constructor\<close> the function \<^verbatim>\<open>Object\<close>), or for \<^verbatim>\<open>__proto__\<close> the object
  \<^verbatim>\<open>Object.prototype\<close> itself.
\<close>

datatype 'n jsval =
  JUndefined | JNull | JBool bool | JNum 'n | JStr string | JDate jsdate | JInherited string

record 'n runtime =
  num_to_string :: "'n \<Rightarrow> string"
  num_truthy :: "'n \<Rightarrow> bool"
  date_to_string :: "jsdate \<Rightarrow> string"
  date_parse :: "string \<Rightarrow> jsdate"
  inherited_to_string :: "string \<Rightarrow> string"

text \<open>\<^verbatim>\<open>String(value)\<close>.\<close>

fun js_String :: "'n runtime \<Rightarrow> 'n jsval \<Rightarrow> string" where
  "js_String rt JUndefined = ''undefined''"
| "js_String rt JNull = ''null''"
| "js_String rt (JBool b) = (if b then ''true'' else ''false'')"
| "js_String rt (JNum n) = num_to_string rt n"
| "js_String rt (JStr s) = s"
| "js_String rt (JDate d) = date_to_string rt d"
| "js_String rt (JInherited k) = inherited_to_string rt k"

text \<open>Truthiness, as tested by \<^verbatim>\<open>!value\<close>.\<close>

fun truthy :: "'n runtime \<Rightarrow> 'n jsval \<Rightarrow> bool" where
  "truthy rt JUndefined = False"
| "truthy rt JNull = False"
| "truthy rt (JBool b) = b"
| "truthy rt (JNum n) = num_truthy rt n"
| "truthy rt (JStr s) = (s \<noteq> [])"
| "truthy rt (JDate d) = True"
| "truthy rt (JInherited k) = True"

text \<open>Decimal printing of a non-negative integer, and of an integer.\<close>

fun digit_char :: "nat \<Rightarrow> char" where
  "digit_char n = char_of (48 + n)"

function dec_nat :: "nat \<Rightarrow> string" where
  "dec_nat n = (if n < 10 then [digit_char n] else dec_nat (n div 10) @ [digit_char (n mod 10)])"
  by pat_completeness auto
termination
  by (relation "measure id") auto

declare dec_nat.simps [simp del]

definition dec_int :: "int \<Rightarrow> string" where
  "dec_int i = (if i < 0 then CHR ''-'' # dec_nat (nat (- i)) else dec_nat (nat i))"

text \<open>\<^verbatim>\<open>s.padStart(n, "0")\<close>.\<close>

definition padStart0 :: "nat \<Rightarrow> string \<Rightarrow> string" where
  "padStart0 n s = replicate (n - length s) CHR ''0'' @ s"

text \<open>
  \<^verbatim>\<open>s.toLowerCase()\<close> on the ASCII letters.  The only characters outside ASCII whose
  lower-case form contains an ASCII letter are U+212A (to \<^verbatim>\<open>k\<close>) and U+0130 (to \<^verbatim>\<open>i\<close>
  followed by U+0307); neither yields a key of the MIME table below.
\<close>

definition toLowerChar :: "char \<Rightarrow> char" where
  "toLowerChar c =
     (let n = (of_char c :: nat) in if 65 \<le> n \<and> n \<le> 90 then char_of (n + 32) else c)"

definition toLowerCase :: "string \<Rightarrow> string" where
  "toLowerCase s = map toLowerChar s"

text \<open>\<^verbatim>\<open>s.split(c)\<close> for a one-character separator: never the empty list.\<close>

fun split_on :: "char \<Rightarrow> string \<Rightarrow> string list" where
  "split_on c [] = [[]]"
| "split_on c (x # xs) =
     (if x = c then [] # split_on c xs
      else (case split_on c xs of [] \<Rightarrow> [[x]] | w # ws \<Rightarrow> (x # w) # ws))"

text \<open>\<^verbatim>\<open>xs.pop()\<close>, the value it returns.\<close>

definition pop :: "'a list \<Rightarrow> 'a option" where
  "pop xs = (if xs = [] then None else Some (last xs))"

text \<open>
  \<^verbatim>\<open>s.replace(pat, rep)\<close> with a string pattern: the first occurrence only.  The
  replacement strings used below are decimal numerals, so the \<^verbatim>\<open>$\<close> patterns of
  JavaScript replacement strings do not arise.
\<close>

fun replace_first :: "string \<Rightarrow> string \<Rightarrow> string \<Rightarrow> string" where
  "replace_first pat rep [] = (if pat = [] then rep else [])"
| "replace_first pat rep (c # cs) =
     (if prefix pat (c # cs) then rep @ drop (length pat) (c # cs)
      else c # replace_first pat rep cs)"

subsection \<open>Failures and plain objects\<close>

text \<open>
  A thrown value: an \<^verbatim>\<open>Error\<close> with its message, or some other value with its string
  form.  \<open>thrown_message\<close> is
  \<^verbatim>\<open>error instanceof Error ? error.message : String(error)\<close>.
\<close>

datatype thrown = ErrorObj string | NonError string

fun thrown_message :: "thrown \<Rightarrow> string" where
  "thrown_message (ErrorObj m) = m"
| "thrown_message (NonError s) = s"

text \<open>How an operation fails: with a \<^verbatim>\<open>TypeError\<close> of the language (a property of
  \<^verbatim>\<open>undefined\<close> is read, or a value that is not iterable is iterated), or with a thrown
  value.\<close>

datatype failure = TypeError | Threw thrown

text \<open>The names of the properties of \<^verbatim>\<open>Object.prototype\<close>.\<close>

definition object_prototype_names :: "string list" where
  "object_prototype_names =
     [''constructor'', ''__defineGetter__'', ''__defineSetter__'', ''hasOwnProperty'',
      ''__lookupGetter__'', ''__lookupSetter__'', ''isPrototypeOf'', ''propertyIsEnumerable'',
      ''toString'', ''valueOf'', ''__proto__'', ''toLocaleString'']"

text \<open>
  The \<^verbatim>\<open>length\<close> of an inherited value: the number of parameters of the function;
  \<^verbatim>\<open>Object.prototype\<close>, the value of \<^verbatim>\<open>__proto__\<close>, has no \<^verbatim>\<open>length\<close>.
\<close>

definition inherited_length :: "string \<Rightarrow> nat option" where
  "inherited_length k =
     (if k \<in> set [''toString'', ''valueOf'', ''toLocaleString''] then Some 0
      else if k \<in> set [''constructor'', ''hasOwnProperty'', ''isPrototypeOf'',
                         ''propertyIsEnumerable'', ''__lookupGetter__'', ''__lookupSetter__'']
      then Some 1
      else if k \<in> set [''__defineGetter__'', ''__defineSetter__''] then Some 2
      else None)"

text \<open>What reading \<^verbatim>\<open>obj[k]\<close> finds.\<close>

datatype 'a property = Own 'a | Inherited string | Absent

definition get_prop :: "(string \<times> 'a) list \<Rightarrow> string \<Rightarrow> 'a property" where
  "get_prop obj k =
     (case map_of obj k of
        Some v \<Rightarrow> Own v
      | None \<Rightarrow> if k \<in> set object_prototype_names then Inherited k else Absent)"

text \<open>
  The own properties after \<^verbatim>\<open>obj[k] = v\<close>.  On an object without an own property
  \<^verbatim>\<open>__proto__\<close> the assignment to that name goes to the setter that the object inherits:
  it stores no property.  (When \<open>v\<close> is an object the setter makes \<open>v\<close> the prototype of
  \<open>obj\<close>; the own properties, which are all that is represented, are the same.  The
  objects that the functions below build in this way are read at their own keys only.)
\<close>

definition set_prop :: "string \<Rightarrow> 'a \<Rightarrow> (string \<times> 'a) list \<Rightarrow> (string \<times> 'a) list" where
  "set_prop k v obj =
     (if k = ''__proto__'' \<and> map_of obj k = None then obj else AList.update k v obj)"

text \<open>
  An array index is the decimal numeral, without superfluous zeros, of a number up to
  \<open>2\<^sup>3\<^sup>2 - 2\<close>.
\<close>

definition is_digit :: "char \<Rightarrow> bool" where
  "is_digit c \<longleftrightarrow> 48 \<le> (of_char c :: int) \<and> (of_char c :: int) \<le> 57"

definition digits_value :: "string \<Rightarrow> int" where
  "digits_value s = foldl (\<lambda>n c. 10 * n + (of_char c - 48)) 0 s"

definition array_index :: "string \<Rightarrow> int option" where
  "array_index k =
     (if k \<noteq> [] \<and> list_all is_digit k \<and> (k = ''0'' \<or> 49 \<le> (of_char (hd k) :: int)) \<and>
         digits_value k \<le> 4294967294
      then Some (digits_value k) else None)"

definition is_index :: "string \<times> 'a \<Rightarrow> bool" where
  "is_index e \<longleftrightarrow> array_index (fst e) \<noteq> None"

definition index_of :: "string \<times> 'a \<Rightarrow> int" where
  "index_of e = (case array_index (fst e) of Some n \<Rightarrow> n | None \<Rightarrow> 0)"

text \<open>\<^verbatim>\<open>Object.entries(obj)\<close>; \<^verbatim>\<open>Object.keys(obj)\<close> is the list of its first components.\<close>

definition Object_entries :: "(string \<times> 'a) list \<Rightarrow> (string \<times> 'a) list" where
  "Object_entries obj =
     sort_key index_of (filter is_index obj) @ filter (\<lambda>e. \<not> is_index e) obj"

subsection \<open>NunjucksRenderer: MIME types\<close>

definition mimeTypes :: "(string \<times> string) list" where
  "mimeTypes =
     [(''json'', ''application/json''),
      (''xml'', ''application/xml''),
      (''csv'', ''text/csv''),
      (''txt'', ''text/plain''),
      (''html'', ''text/html''),
      (''md'', ''text/markdown''),
      (''yaml'', ''text/yaml''),
      (''yml'', ''text/yaml'')]"

text \<open>
  What \<open>getMimeType\<close> returns: a string, or the value of an inherited property, which is
  truthy and so is returned in the place of the default.
\<close>

datatype mime = Mime string | MimeInherited string

definition getMimeType :: "string \<Rightarrow> mime" where
  "getMimeType filename =
     (let ext = map_option toLowerCase (pop (split_on CHR ''.'' filename));
          key = (case ext of None \<Rightarrow> [] | Some e \<Rightarrow> if e = [] then [] else e)
      in case get_prop mimeTypes key of
           Absent \<Rightarrow> Mime ''text/plain''
         | Own m \<Rightarrow> if m = [] then Mime ''text/plain'' else Mime m
         | Inherited k \<Rightarrow> MimeInherited k)"

text \<open>The extension as the code takes it: the text after the last dot, or the whole
  name when there is no dot.\<close>

definition extension :: "string \<Rightarrow> string" where
  "extension filename = rev (takeWhile (\<lambda>c. c \<noteq> CHR ''.'') (rev filename))"

subsection \<open>NunjucksRenderer: the date filter\<close>

text \<open>\<^verbatim>\<open>formatDate\<close>: \<open>date\<close> holds what the local-time getters of a valid date return.\<close>

definition formatDate :: "jstime \<Rightarrow> string \<Rightarrow> string" where
  "formatDate date format =
     (let year = getFullYear date;
          month = padStart0 2 (dec_nat (getMonth date + 1));
          day = padStart0 2 (dec_nat (getDate date));
          hours = padStart0 2 (dec_nat (getHours date));
          minutes = padStart0 2 (dec_nat (getMinutes date));
          seconds = padStart0 2 (dec_nat (getSeconds date))
      in replace_first ''ss'' seconds
          (replace_first ''mm'' minutes
            (replace_first ''HH'' hours
              (replace_first ''DD'' day
                (replace_first ''MM'' month
                  (replace_first ''YYYY'' (dec_int year) format))))))"

text \<open>The filter \<^verbatim>\<open>date\<close>; \<open>fmt = None\<close> is the call without a format.\<close>

definition date_filter :: "'n runtime \<Rightarrow> 'n jsval \<Rightarrow> string option \<Rightarrow> string" where
  "date_filter rt v fmt =
     (let format = (case fmt of None \<Rightarrow> ''YYYY-MM-DD'' | Some f \<Rightarrow> f) in
      if \<not> truthy rt v then []
      else
        (let date = (case v of JDate d \<Rightarrow> d | _ \<Rightarrow> date_parse rt (js_String rt v)) in
         case date of
           InvalidDate \<Rightarrow> js_String rt v
         | ValidDate t \<Rightarrow> formatDate t format))"

subsection \<open>MappingProcessor\<close>

text \<open>The values a lookup table may hold: \<^verbatim>\<open>string | number | boolean\<close>.\<close>

datatype 'n mapval = MStr string | MNum 'n | MBool bool

fun of_mapval :: "'n mapval \<Rightarrow> 'n jsval" where
  "of_mapval (MStr s) = JStr s"
| "of_mapval (MNum n) = JNum n"
| "of_mapval (MBool b) = JBool b"

record 'n ValueMapping =
  column :: string
  outputField :: string
  map_table :: "(string \<times> 'n mapval) list"
  default_value :: "'n mapval"

type_synonym 'n TableRow = "(string \<times> 'n jsval) list"

text \<open>\<^verbatim>\<open>row[column]\<close>, as a value.\<close>

definition row_get :: "'n TableRow \<Rightarrow> string \<Rightarrow> 'n jsval" where
  "row_get row k =
     (case get_prop row k of Own v \<Rightarrow> v | Inherited n \<Rightarrow> JInherited n | Absent \<Rightarrow> JUndefined)"

text \<open>\<^verbatim>\<open>map[key]\<close>, as a value.\<close>

definition map_get :: "(string \<times> 'n mapval) list \<Rightarrow> string \<Rightarrow> 'n jsval" where
  "map_get m k =
     (case get_prop m k of
        Own v \<Rightarrow> of_mapval v | Inherited n \<Rightarrow> JInherited n | Absent \<Rightarrow> JUndefined)"

text \<open>
  The body of the loop \<^verbatim>\<open>for (const mapping of mappings)\<close>: it reads \<open>row\<close> and writes
  \<open>mappedRow\<close>.
\<close>

definition applyMapping ::
  "'n runtime \<Rightarrow> 'n TableRow \<Rightarrow> 'n ValueMapping \<Rightarrow> 'n TableRow \<Rightarrow> 'n TableRow" where
  "applyMapping rt row mapping mappedRow =
     (let sourceValue = row_get row (column mapping) in
      if sourceValue = JNull \<or> sourceValue = JUndefined
      then set_prop (outputField mapping) (of_mapval (default_value mapping)) mappedRow
      else
        (let key = js_String rt sourceValue;
             mappedValue = map_get (map_table mapping) key
         in if mappedValue \<noteq> JUndefined
            then set_prop (outputField mapping) mappedValue mappedRow
            else set_prop (outputField mapping) (of_mapval (default_value mapping))
                   mappedRow))"

text \<open>
  The callback of \<^verbatim>\<open>rows.map\<close>, on values: \<^verbatim>\<open>mappedRow\<close> starts as \<^verbatim>\<open>{ ...row }\<close>, a
  new object on which the own properties of \<open>row\<close> are created in the order in which
  \<open>row\<close> enumerates them.
\<close>

definition mapRow :: "'n runtime \<Rightarrow> 'n ValueMapping list \<Rightarrow> 'n TableRow \<Rightarrow> 'n TableRow" where
  "mapRow rt mappings row =
     foldl (\<lambda>mappedRow mapping. applyMapping rt row mapping mappedRow)
       (Object_entries row) mappings"

definition applyMappings ::
  "'n runtime \<Rightarrow> 'n TableRow list \<Rightarrow> 'n ValueMapping list option \<Rightarrow> 'n TableRow list" where
  "applyMappings rt rows mappings =
     (case mappings of
        None \<Rightarrow> rows
      | Some ms \<Rightarrow> if length ms = 0 then rows else map (mapRow rt ms) rows)"

text \<open>
  \<open>applyMappings\<close> when \<^verbatim>\<open>mappings\<close> is an inherited value, which
  \<^verbatim>\<open>tableMappings[tableKey]\<close> can be.  The value is truthy; when its \<^verbatim>\<open>length\<close> is 0 the
  rows are returned; otherwise \<^verbatim>\<open>rows.map\<close> builds a new array, and its callback, called
  when there is a row, throws at \<^verbatim>\<open>for (const mapping of mappings)\<close>, the value not being
  iterable.
\<close>

definition applyMappings_inherited :: "string \<Rightarrow> 'n TableRow list \<Rightarrow> failure + 'n TableRow list" where
  "applyMappings_inherited k rows =
     (if inherited_length k = Some 0 then Inr rows
      else if rows = [] then Inr []
      else Inl TypeError)"

text \<open>The loop of \<open>applyMappingsToTables\<close> over \<^verbatim>\<open>Object.entries(tablesData)\<close>.\<close>

fun forTables ::
  "'n runtime \<Rightarrow> (string \<times> 'n ValueMapping list option) list \<Rightarrow>
   (string \<times> 'n TableRow list) list \<Rightarrow> (string \<times> 'n TableRow list) list \<Rightarrow>
   failure + (string \<times> 'n TableRow list) list" where
  "forTables rt tableMappings [] result = Inr result"
| "forTables rt tableMappings ((tableKey, rows) # entries) result =
     (case (case get_prop tableMappings tableKey of
              Own (Some ms) \<Rightarrow> Inr (applyMappings rt rows (Some ms))
            | Own None \<Rightarrow> Inr rows
            | Absent \<Rightarrow> Inr rows
            | Inherited k \<Rightarrow> applyMappings_inherited k rows) of
        Inl e \<Rightarrow> Inl e
      | Inr v \<Rightarrow> forTables rt tableMappings entries (set_prop tableKey v result))"

definition applyMappingsToTables ::
  "'n runtime \<Rightarrow> (string \<times> 'n TableRow list) list \<Rightarrow>
   (string \<times> 'n ValueMapping list option) list \<Rightarrow> failure + (string \<times> 'n TableRow list) list" where
  "applyMappingsToTables rt tablesData tableMappings =
     forTables rt tableMappings (Object_entries tablesData) []"

subsection \<open>MappingProcessor with object identities\<close>

text \<open>
  The same two functions over an explicit store, so that which object is read, which is
  written and which reference is returned can be stated.  Row objects and arrays of row
  references live in two stores; an address is an index, and allocation appends.
\<close>

record 'n heap =
  row_objs :: "'n TableRow list"
  arr_objs :: "nat list list"

text \<open>The loop over the rules: \<open>row\<close> and \<open>mappedRow\<close> are addresses of row objects.\<close>

fun forMappings_h ::
  "'n runtime \<Rightarrow> nat \<Rightarrow> nat \<Rightarrow> 'n ValueMapping list \<Rightarrow> 'n heap \<Rightarrow> 'n heap" where
  "forMappings_h rt row mappedRow [] h = h"
| "forMappings_h rt row mappedRow (mapping # ms) h =
     forMappings_h rt row mappedRow ms
       (h\<lparr>row_objs := (row_objs h)
            [mappedRow := applyMapping rt (row_objs h ! row) mapping (row_objs h ! mappedRow)]\<rparr>)"

text \<open>The callback: \<^verbatim>\<open>{ ...row }\<close> allocates the copy, the loop fills it.\<close>

definition mapRow_h :: "'n runtime \<Rightarrow> 'n ValueMapping list \<Rightarrow> nat \<Rightarrow> 'n heap \<Rightarrow> nat \<times> 'n heap" where
  "mapRow_h rt mappings row h =
     (let mappedRow = length (row_objs h);
          h1 = h\<lparr>row_objs := row_objs h @ [Object_entries (row_objs h ! row)]\<rparr>
      in (mappedRow, forMappings_h rt row mappedRow mappings h1))"

fun mapRows_h ::
  "'n runtime \<Rightarrow> 'n ValueMapping list \<Rightarrow> nat list \<Rightarrow> 'n heap \<Rightarrow> nat list \<times> 'n heap" where
  "mapRows_h rt mappings [] h = ([], h)"
| "mapRows_h rt mappings (row # rows) h =
     (case mapRow_h rt mappings row h of
        (mappedRow, h1) \<Rightarrow>
          (case mapRows_h rt mappings rows h1 of
             (mappedRows, h2) \<Rightarrow> (mappedRow # mappedRows, h2)))"

definition applyMappings_h ::
  "'n runtime \<Rightarrow> nat \<Rightarrow> 'n ValueMapping list option \<Rightarrow> 'n heap \<Rightarrow> nat \<times> 'n heap" where
  "applyMappings_h rt rows mappings h =
     (case mappings of
        None \<Rightarrow> (rows, h)
      | Some ms \<Rightarrow>
          if length ms = 0 then (rows, h)
          else
            (case mapRows_h rt ms (arr_objs h ! rows) h of
               (mappedRows, h1) \<Rightarrow>
                 (length (arr_objs h1), h1\<lparr>arr_objs := arr_objs h1 @ [mappedRows]\<rparr>)))"

definition applyMappings_inherited_h :: "string \<Rightarrow> nat \<Rightarrow> 'n heap \<Rightarrow> failure + nat \<times> 'n heap" where
  "applyMappings_inherited_h k rows h =
     (if inherited_length k = Some 0 then Inr (rows, h)
      else if arr_objs h ! rows = [] then Inr (length (arr_objs h), h\<lparr>arr_objs := arr_objs h @ [[]]\<rparr>)
      else Inl TypeError)"

fun forTables_h ::
  "'n runtime \<Rightarrow> (string \<times> 'n ValueMapping list option) list \<Rightarrow> (string \<times> nat) list \<Rightarrow>
   (string \<times> nat) list \<Rightarrow> 'n heap \<Rightarrow> failure + (string \<times> nat) list \<times> 'n heap" where
  "forTables_h rt tableMappings [] result h = Inr (result, h)"
| "forTables_h rt tableMappings ((tableKey, rows) # entries) result h =
     (case (case get_prop tableMappings tableKey of
              Own (Some ms) \<Rightarrow> Inr (applyMappings_h rt rows (Some ms) h)
            | Own None \<Rightarrow> Inr (rows, h)
            | Absent \<Rightarrow> Inr (rows, h)
            | Inherited k \<Rightarrow> applyMappings_inherited_h k rows h) of
        Inl e \<Rightarrow> Inl e
      | Inr (v, h1) \<Rightarrow> forTables_h rt tableMappings entries (set_prop tableKey v result) h1)"

definition applyMappingsToTables_h ::
  "'n runtime \<Rightarrow> (string \<times> nat) list \<Rightarrow> (string \<times> 'n ValueMapping list option) list \<Rightarrow>
   'n heap \<Rightarrow> failure + (string \<times> nat) list \<times> 'n heap" where
  "applyMappingsToTables_h rt tablesData tableMappings h =
     forTables_h rt tableMappings (Object_entries tablesData) [] h"

text \<open>The rows an array reference stands for.\<close>

definition rows_at :: "'n heap \<Rightarrow> nat \<Rightarrow> 'n TableRow list" where
  "rows_at h a = map (\<lambda>r. row_objs h ! r) (arr_objs h ! a)"

text \<open>An array reference is allocated, and so is every row reference it holds.\<close>

definition valid_rows :: "'n heap \<Rightarrow> nat \<Rightarrow> bool" where
  "valid_rows h a \<longleftrightarrow>
     a < length (arr_objs h) \<and> list_all (\<lambda>r. r < length (row_objs h)) (arr_objs h ! a)"

text \<open>A later store extends an earlier one: every object of the earlier store is still
  there, unchanged, at its address.\<close>

definition heap_le :: "'n heap \<Rightarrow> 'n heap \<Rightarrow> bool" where
  "heap_le h h' \<longleftrightarrow> prefix (row_objs h) (row_objs h') \<and> prefix (arr_objs h) (arr_objs h')"

text \<open>A runtime for concrete inputs: numbers are natural numbers, printed in decimal
  as JavaScript prints them; no string is a date.\<close>

definition example_runtime :: "nat runtime" where
  "example_runtime =
     \<lparr>num_to_string = dec_nat, num_truthy = (\<lambda>n. n \<noteq> 0),
      date_to_string = (\<lambda>d. ''Invalid Date''), date_parse = (\<lambda>s. InvalidDate),
      inherited_to_string =
        (\<lambda>k. if k = ''__proto__'' then ''[object Object]''
             else if k = ''constructor'' then ''function Object() { [native code] }''
             else ''function '' @ k @ ''() { [native code] }'')\<rparr>"

subsection \<open>Templates, contexts and results\<close>

text \<open>
  The types of \<^verbatim>\<open>types/template.ts\<close>.  Fields that the validators test with \<^verbatim>\<open>!\<close> or
  \<^verbatim>\<open>?.\<close> are options.  The two fields of an output definition are \<open>cfg_filename\<close> and
  \<open>cfg_template\<close> (\<^verbatim>\<open>filename\<close> and \<^verbatim>\<open>template\<close> in the source), since \<open>filename\<close> is
  also a field of a rendered output.
\<close>

record TemplateMetadata =
  meta_name :: "string option"
  version :: "string option"
  description :: "string option"

record 'n TableConfig =
  table_name :: "string option"
  columnMap :: "(string \<times> string) list option"
  valueMappings :: "'n ValueMapping list option"

datatype GlobalType = TString | TNumber | TBoolean | TDate

record 'n GlobalConfig =
  global_name :: string
  global_type :: "GlobalType option"
  defaultValue :: "'n jsval option"

record OutputConfig =
  cfg_filename :: "string option"
  cfg_template :: "string option"
  cfg_description :: "string option"

record 'n AddInTemplate =
  metadata :: "TemplateMetadata option"
  tables :: "'n TableConfig list option"
  template_globals :: "'n GlobalConfig list option"
  outputs :: "(string \<times> OutputConfig) list option"

record 'n TemplateContext =
  globals :: "(string \<times> 'n jsval) list"
  data :: "(string \<times> 'n TableRow list) list"
  currentdatetime :: string

record RenderedOutput =
  name :: string
  filename :: string
  content :: string
  mimeType :: mime

datatype Severity = SevError | SevWarning

record ValidationError =
  field :: string
  message :: string
  severity :: "Severity option"

record ValidationResult =
  valid :: bool
  errors :: "ValidationError list"

text \<open>
  The object handed to \<^verbatim>\<open>env.renderString\<close>, and the template engine itself, which is
  not code of this repository: a function from the template source and that object
  to the rendered text or the value it throws.
\<close>

record 'n RenderContext =
  rc_globals :: "(string \<times> 'n jsval) list option"
  rc_data :: "(string \<times> 'n TableRow list) list option"
  rc_currentdatetime :: "string option"

type_synonym 'n engine = "string option \<Rightarrow> 'n RenderContext \<Rightarrow> thrown + string"

text \<open>
  What the orchestrator asks of the workbook, and the clock.  Of the tables and named
  ranges that the workbook lists only the names are read, so \<open>getTables\<close> and
  \<open>getNamedRanges\<close> give names; \<open>readTable\<close> gives the rows of \<^verbatim>\<open>TableService.readTable\<close>.
\<close>

record 'n host =
  getTables :: "thrown + string list"
  getNamedRanges :: "thrown + string list"
  readTable :: "string option \<Rightarrow> (string \<times> string) list option \<Rightarrow> thrown + 'n TableRow list"
  readNamedRange :: "string \<Rightarrow> GlobalType option \<Rightarrow> 'n jsval option \<Rightarrow> thrown + 'n jsval"
  now :: jstime

text \<open>A string or \<^verbatim>\<open>undefined\<close> inside a template literal or used as a property key.\<close>

definition js_str :: "string option \<Rightarrow> string" where
  "js_str s = (case s of None \<Rightarrow> ''undefined'' | Some x \<Rightarrow> x)"

text \<open>\<^verbatim>\<open>!s\<close> for a string or \<^verbatim>\<open>undefined\<close>.\<close>

definition not_str :: "string option \<Rightarrow> bool" where
  "not_str s = (case s of None \<Rightarrow> True | Some x \<Rightarrow> x = [])"

subsection \<open>NunjucksRenderer: rendering\<close>

definition render :: "'n engine \<Rightarrow> string option \<Rightarrow> 'n TemplateContext \<Rightarrow> thrown + string" where
  "render env template context =
     env template
       \<lparr>rc_globals = Some (globals context), rc_data = Some (data context),
        rc_currentdatetime = Some (currentdatetime context)\<rparr>"

definition resolveFilename ::
  "'n engine \<Rightarrow> string option \<Rightarrow> 'n TemplateContext \<Rightarrow> thrown + string" where
  "resolveFilename env fname context =
     env fname
       \<lparr>rc_globals = Some (globals context), rc_data = None,
        rc_currentdatetime = Some (currentdatetime context)\<rparr>"

definition renderOutput ::
  "'n engine \<Rightarrow> OutputConfig \<Rightarrow> 'n TemplateContext \<Rightarrow> thrown + RenderedOutput" where
  "renderOutput env output context =
     (case resolveFilename env (cfg_filename output) context of
        Inl e \<Rightarrow> Inl e
      | Inr fname \<Rightarrow>
          (case render env (cfg_template output) context of
             Inl e \<Rightarrow> Inl e
           | Inr cont \<Rightarrow>
               (let mime = getMimeType fname
                in Inr \<lparr>name = fname, filename = fname, content = cont, mimeType = mime\<rparr>)))"

text \<open>The loop of \<open>renderAllOutputs\<close> over the entries, with the accumulator \<open>results\<close>.\<close>

fun forOutputs ::
  "'n engine \<Rightarrow> 'n TemplateContext \<Rightarrow> (string \<times> OutputConfig) list \<Rightarrow> RenderedOutput list \<Rightarrow>
   thrown + RenderedOutput list" where
  "forOutputs env context [] results = Inr results"
| "forOutputs env context ((nm, output) # entries) results =
     (case renderOutput env output context of
        Inr rendered \<Rightarrow> forOutputs env context entries (results @ [rendered\<lparr>name := nm\<rparr>])
      | Inl error \<Rightarrow>
          Inl (ErrorObj (''Error rendering output '' @ [CHR 0x22] @ nm @ [CHR 0x22] @ '': ''
                 @ thrown_message error)))"

definition renderAllOutputs ::
  "'n engine \<Rightarrow> (string \<times> OutputConfig) list \<Rightarrow> 'n TemplateContext \<Rightarrow>
   thrown + RenderedOutput list" where
  "renderAllOutputs env outs context = forOutputs env context (Object_entries outs) []"

subsection \<open>DataOrchestrator: validation\<close>

definition validateTemplate :: "'n AddInTemplate \<Rightarrow> ValidationResult" where
  "validateTemplate template =
     (let errors0 = [];
          errors1 =
            (if (case metadata template of None \<Rightarrow> True | Some m \<Rightarrow> not_str (meta_name m))
             then errors0 @ [\<lparr>field = ''metadata.name'', message = ''Template name is required'',
                               severity = None\<rparr>]
             else errors0);
          errors2 =
            (if (case metadata template of None \<Rightarrow> True | Some m \<Rightarrow> not_str (version m))
             then errors1 @ [\<lparr>field = ''metadata.version'',
                               message = ''Template version is required'', severity = None\<rparr>]
             else errors1);
          errors3 =
            (if (case tables template of None \<Rightarrow> True | Some ts \<Rightarrow> length ts = 0)
             then errors2 @ [\<lparr>field = ''tables'',
                               message = ''At least one table mapping is required'',
                               severity = None\<rparr>]
             else errors2 @
               concat (map (\<lambda>(index, config).
                   if not_str (table_name config)
                   then [\<lparr>field = ''tables['' @ dec_nat index @ ''].name'',
                           message = ''Table name is required'', severity = None\<rparr>]
                   else [])
                 (enumerate 0 (case tables template of None \<Rightarrow> [] | Some ts \<Rightarrow> ts))));
          errors4 =
            (if (case outputs template of
                   None \<Rightarrow> True
                 | Some os \<Rightarrow> length (map fst (Object_entries os)) = 0)
             then errors3 @ [\<lparr>field = ''outputs'', message = ''At least one output is required'',
                               severity = None\<rparr>]
             else errors3 @
               concat (map (\<lambda>(nm, output).
                   (if not_str (cfg_template output)
                    then [\<lparr>field = ''outputs.'' @ nm @ ''.template'',
                            message = ''Template content is required'', severity = None\<rparr>]
                    else []) @
                   (if not_str (cfg_filename output)
                    then [\<lparr>field = ''outputs.'' @ nm @ ''.filename'',
                            message = ''Filename is required'', severity = None\<rparr>]
                    else []))
                 (case outputs template of None \<Rightarrow> [] | Some os \<Rightarrow> Object_entries os)))
      in \<lparr>valid = (length errors4 = 0), errors = errors4\<rparr>)"

text \<open>\<^verbatim>\<open>names.includes(s)\<close> for a list of strings and a string or \<^verbatim>\<open>undefined\<close>.\<close>

definition includes_name :: "string list \<Rightarrow> string option \<Rightarrow> bool" where
  "includes_name names s = (case s of None \<Rightarrow> False | Some x \<Rightarrow> x \<in> set names)"

definition tableErrors :: "string list \<Rightarrow> 'n TableConfig list \<Rightarrow> ValidationError list" where
  "tableErrors tableNames ts =
     concat (map (\<lambda>config.
         if \<not> includes_name tableNames (table_name config)
         then [\<lparr>field = ''tables.'' @ js_str (table_name config),
                 message = ''Excel Table '' @ [CHR 0x22] @ js_str (table_name config) @ [CHR 0x22]
                   @ '' not found in workbook'',
                 severity = Some SevError\<rparr>]
         else []) ts)"

definition globalWarnings :: "string list \<Rightarrow> 'n GlobalConfig list \<Rightarrow> ValidationError list" where
  "globalWarnings rangeNames gs =
     concat (map (\<lambda>config.
         if \<not> includes_name rangeNames (Some (global_name config))
         then [\<lparr>field = ''globals.'' @ global_name config,
                 message = ''Named Range '' @ [CHR 0x22] @ global_name config @ [CHR 0x22]
                   @ '' not found. Will use default value.'',
                 severity = Some SevWarning\<rparr>]
         else []) gs)"

definition availabilityResult :: "ValidationError list \<Rightarrow> ValidationResult" where
  "availabilityResult es =
     \<lparr>valid = (length (filter (\<lambda>e. severity e \<noteq> Some SevWarning) es) = 0), errors = es\<rparr>"

definition validateDataAvailability ::
  "'n host \<Rightarrow> 'n AddInTemplate \<Rightarrow> failure + ValidationResult" where
  "validateDataAvailability host template =
     (case getTables host of
        Inl e \<Rightarrow> Inl (Threw e)
      | Inr tableNames \<Rightarrow>
          (case tables template of
             None \<Rightarrow> Inl TypeError
           | Some ts \<Rightarrow>
               (let errors1 = tableErrors tableNames ts in
                case template_globals template of
                  None \<Rightarrow> Inr (availabilityResult errors1)
                | Some gs \<Rightarrow>
                    (case getNamedRanges host of
                       Inl e \<Rightarrow> Inl (Threw e)
                     | Inr rangeNames \<Rightarrow>
                         Inr (availabilityResult (errors1 @ globalWarnings rangeNames gs))))))"

subsection \<open>DataOrchestrator: context and outputs\<close>

text \<open>\<^verbatim>\<open>GlobalsService.readAllGlobals\<close>: one read after the other; the first rejection
  ends the loop.\<close>

fun readAllGlobals ::
  "'n host \<Rightarrow> 'n GlobalConfig list \<Rightarrow> (string \<times> 'n jsval) list \<Rightarrow>
   thrown + (string \<times> 'n jsval) list" where
  "readAllGlobals host [] gl = Inr gl"
| "readAllGlobals host (config # configs) gl =
     (case readNamedRange host (global_name config) (global_type config) (defaultValue config) of
        Inl e \<Rightarrow> Inl e
      | Inr v \<Rightarrow> readAllGlobals host configs (set_prop (global_name config) v gl))"

text \<open>\<^verbatim>\<open>TableService.readTables\<close>: a table that cannot be read gives no rows.\<close>

fun readTables ::
  "'n host \<Rightarrow> 'n TableConfig list \<Rightarrow> (string \<times> 'n TableRow list) list \<Rightarrow>
   (string \<times> 'n TableRow list) list" where
  "readTables host [] result = result"
| "readTables host (config # configs) result =
     readTables host configs
       (set_prop (js_str (table_name config))
          (case readTable host (table_name config) (columnMap config) of
             Inr rows \<Rightarrow> rows
           | Inl e \<Rightarrow> [])
          result)"

definition formatNow :: "jstime \<Rightarrow> string" where
  "formatNow t =
     dec_int (getFullYear t) @ ''-'' @ padStart0 2 (dec_nat (getMonth t + 1)) @ ''-''
       @ padStart0 2 (dec_nat (getDate t)) @ ''_'' @ padStart0 2 (dec_nat (getHours t)) @ ''-''
       @ padStart0 2 (dec_nat (getMinutes t)) @ ''-'' @ padStart0 2 (dec_nat (getSeconds t))"

definition buildContext :: "'n runtime \<Rightarrow> 'n host \<Rightarrow> 'n AddInTemplate \<Rightarrow> failure + 'n TemplateContext" where
  "buildContext rt host template =
     (case (case template_globals template of
              None \<Rightarrow> Inr []
            | Some gs \<Rightarrow> readAllGlobals host gs []) of
        Inl e \<Rightarrow> Inl (Threw e)
      | Inr gl \<Rightarrow>
          (case tables template of
             None \<Rightarrow> Inl TypeError
           | Some ts \<Rightarrow>
               (let d = readTables host ts [];
                    mappingsConfig =
                      foldl (\<lambda>cfg config.
                          set_prop (js_str (table_name config)) (valueMappings config) cfg)
                        [] ts
                in case applyMappingsToTables rt d mappingsConfig of
                     Inl e \<Rightarrow> Inl e
                   | Inr d' \<Rightarrow>
                       Inr \<lparr>globals = gl, data = d', currentdatetime = formatNow (now host)\<rparr>)))"

definition generateOutputs ::
  "'n runtime \<Rightarrow> 'n engine \<Rightarrow> 'n host \<Rightarrow> 'n AddInTemplate \<Rightarrow> failure + RenderedOutput list" where
  "generateOutputs rt env host template =
     (case buildContext rt host template of
        Inl e \<Rightarrow> Inl e
      | Inr context \<Rightarrow>
          (case outputs template of
             None \<Rightarrow> Inl TypeError
           | Some outs \<Rightarrow>
               (case renderAllOutputs env outs context of
                  Inl e \<Rightarrow> Inl (Threw e)
                | Inr rs \<Rightarrow> Inr rs)))"

text \<open>
  \<open>previewOutput\<close>: \<open>Inr None\<close> is the returned \<^verbatim>\<open>null\<close>.  An inherited value is truthy, and
  its \<^verbatim>\<open>filename\<close> and \<^verbatim>\<open>template\<close> are \<^verbatim>\<open>undefined\<close>.
\<close>

definition previewOutput ::
  "'n runtime \<Rightarrow> 'n engine \<Rightarrow> 'n host \<Rightarrow> 'n AddInTemplate \<Rightarrow> string \<Rightarrow>
   failure + RenderedOutput option" where
  "previewOutput rt env host template outputName =
     (case outputs template of
        None \<Rightarrow> Inl TypeError
      | Some outs \<Rightarrow>
          (case (case get_prop outs outputName of
                   Own out \<Rightarrow> Some out
                 | Inherited k \<Rightarrow>
                     Some \<lparr>cfg_filename = None, cfg_template = None, cfg_description = None\<rparr>
                 | Absent \<Rightarrow> None) of
             None \<Rightarrow> Inr None
           | Some output \<Rightarrow>
               (case buildContext rt host template of
                  Inl e \<Rightarrow> Inl e
                | Inr context \<Rightarrow>
                    (case renderOutput env output context of
                       Inl e \<Rightarrow> Inl (Threw e)
                     | Inr rendered \<Rightarrow> Inr (Some rendered)))))"

subsection \<open>The checks of validateTemplate, one by one\<close>

text \<open>
  The records that \<open>validateTemplate\<close> pushes: the four of the top-level checks, the one
  of a table at an index, the two of an output with a key; and what each of the four
  checks contributes on its own.
\<close>

definition nameError :: ValidationError where
  "nameError = \<lparr>field = ''metadata.name'', message = ''Template name is required'', severity = None\<rparr>"

definition versionError :: ValidationError where
  "versionError = \<lparr>field = ''metadata.version'', message = ''Template version is required'',
     severity = None\<rparr>"

definition tablesError :: ValidationError where
  "tablesError = \<lparr>field = ''tables'', message = ''At least one table mapping is required'',
     severity = None\<rparr>"

definition outputsError :: ValidationError where
  "outputsError = \<lparr>field = ''outputs'', message = ''At least one output is required'',
     severity = None\<rparr>"

definition tableNameError :: "nat \<Rightarrow> ValidationError" where
  "tableNameError index =
     \<lparr>field = ''tables['' @ dec_nat index @ ''].name'', message = ''Table name is required'',
      severity = None\<rparr>"

definition outputTemplateError :: "string \<Rightarrow> ValidationError" where
  "outputTemplateError nm =
     \<lparr>field = ''outputs.'' @ nm @ ''.template'', message = ''Template content is required'',
      severity = None\<rparr>"

definition outputFilenameError :: "string \<Rightarrow> ValidationError" where
  "outputFilenameError nm =
     \<lparr>field = ''outputs.'' @ nm @ ''.filename'', message = ''Filename is required'',
      severity = None\<rparr>"

definition tableNameErrors :: "'n TableConfig list \<Rightarrow> ValidationError list" where
  "tableNameErrors ts =
     concat (map (\<lambda>(index, config).
         if not_str (table_name config) then [tableNameError index] else [])
       (enumerate 0 ts))"

definition outputFieldErrors :: "(string \<times> OutputConfig) list \<Rightarrow> ValidationError list" where
  "outputFieldErrors os =
     concat (map (\<lambda>(nm, output).
         (if not_str (cfg_template output) then [outputTemplateError nm] else []) @
         (if not_str (cfg_filename output) then [outputFilenameError nm] else []))
       os)"

definition nameCheck :: "'n AddInTemplate \<Rightarrow> ValidationError list" where
  "nameCheck t =
     (if (case metadata t of None \<Rightarrow> True | Some m \<Rightarrow> not_str (meta_name m))
      then [nameError] else [])"

definition versionCheck :: "'n AddInTemplate \<Rightarrow> ValidationError list" where
  "versionCheck t =
     (if (case metadata t of None \<Rightarrow> True | Some m \<Rightarrow> not_str (version m))
      then [versionError] else [])"

definition tablesCheck :: "'n AddInTemplate \<Rightarrow> ValidationError list" where
  "tablesCheck t =
     (case tables t of None \<Rightarrow> [tablesError]
      | Some ts \<Rightarrow> if ts = [] then [tablesError] else tableNameErrors ts)"

definition outputsCheck :: "'n AddInTemplate \<Rightarrow> ValidationError list" where
  "outputsCheck t =
     (case outputs t of None \<Rightarrow> [outputsError]
      | Some os \<Rightarrow> if os = [] then [outputsError] else outputFieldErrors (Object_entries os))"

text \<open>
  A workbook and a template engine for concrete inputs.  The engine fails on a missing
  source and on a source that opens with a block tag; otherwise it puts the time stamp
  and the number of tables of \<open>data\<close> (nothing when \<open>data\<close> is not given) in the place of
  their first placeholder.
\<close>

definition example_host :: "nat host" where
  "example_host =
     \<lparr>getTables = Inr [''Orders''], getNamedRanges = Inr [''project''],
      readTable = (\<lambda>n cm. if n = Some ''Orders'' then Inr [[(''code'', JStr ''A'')]]
                           else Inl (ErrorObj ''ItemNotFound'')),
      readNamedRange = (\<lambda>n t d. Inr (JStr ''Acme'')),
      now = \<lparr>getFullYear = 2024, getMonth = 0, getDate = 5, getHours = 9, getMinutes = 3,
              getSeconds = 7\<rparr>\<rparr>"

definition example_engine :: "nat engine" where
  "example_engine tmpl ctx =
     (case tmpl of
        None \<Rightarrow> Inl (ErrorObj ''src must be a string or an object describing the source'')
      | Some s \<Rightarrow>
          if prefix ''{%'' s then Inl (ErrorObj ''unexpected end of file'')
          else Inr (replace_first ''{{ tables }}''
                      (case rc_data ctx of None \<Rightarrow> [] | Some d \<Rightarrow> dec_nat (length d))
                      (replace_first ''{{ currentdatetime }}''
                         (case rc_currentdatetime ctx of None \<Rightarrow> [] | Some d \<Rightarrow> d) s)))"


section \<open>Properties\<close>

subsection \<open>Plain objects\<close>

lemma get_prop_Own: "get_prop obj k = Own v \<longleftrightarrow> map_of obj k = Some v"
  by (auto simp: get_prop_def split: option.splits)

lemma map_of_set_prop_other: "f \<noteq> k \<Longrightarrow> map_of (set_prop k v obj) f = map_of obj f"
  by (simp add: set_prop_def update_conv')

lemma mset_Object_entries: "mset (Object_entries obj) = mset obj"
  by (simp add: Object_entries_def)

lemma set_Object_entries: "set (Object_entries obj) = set obj"
  by (auto simp: Object_entries_def)

lemma length_Object_entries: "length (Object_entries obj) = length obj"
  using mset_Object_entries [of obj] by (metis size_mset)

lemma Object_entries_no_index:
  "\<forall>e\<in>set obj. \<not> is_index e \<Longrightarrow> Object_entries obj = obj"
  by (simp add: Object_entries_def filter_empty_conv [THEN iffD2])

lemma Object_entries_indices_first:
  "Object_entries obj =
     filter is_index (Object_entries obj) @ filter (\<lambda>e. \<not> is_index e) (Object_entries obj)"
proof -
  have a: "filter is_index (sort_key index_of (filter is_index obj)) =
      sort_key index_of (filter is_index obj)"
    by (rule filter_True) simp
  have b: "filter is_index (filter (\<lambda>e. \<not> is_index e) obj) = []"
    by (simp add: filter_empty_conv)
  have c: "filter (\<lambda>e. \<not> is_index e) (sort_key index_of (filter is_index obj)) = []"
    by (simp add: filter_empty_conv)
  show ?thesis
    by (simp add: Object_entries_def a b c)
qed

lemma Object_entries_indices_sorted:
  "sorted (map index_of (filter is_index (Object_entries obj)))"
proof -
  have a: "filter is_index (sort_key index_of (filter is_index obj)) =
      sort_key index_of (filter is_index obj)"
    by (rule filter_True) simp
  have b: "filter is_index (filter (\<lambda>e. \<not> is_index e) obj) = []"
    by (simp add: filter_empty_conv)
  show ?thesis
    by (simp add: Object_entries_def a b)
qed

lemma Object_entries_others_in_order:
  "filter (\<lambda>e. \<not> is_index e) (Object_entries obj) = filter (\<lambda>e. \<not> is_index e) obj"
proof -
  have c: "filter (\<lambda>e. \<not> is_index e) (sort_key index_of (filter is_index obj)) = []"
    by (simp add: filter_empty_conv)
  show ?thesis
    by (simp add: Object_entries_def c)
qed

subsection \<open>MIME type resolution\<close>

lemma split_on_nonempty: "split_on c s \<noteq> []"
  by (induction s) (auto split: list.splits)

lemma split_on_without: "c \<notin> set s \<Longrightarrow> split_on c s = [s]"
  by (induction s) auto

lemma split_on_with: "c \<in> set s \<Longrightarrow> tl (split_on c s) \<noteq> []"
  by (induction s) (auto simp: split_on_nonempty split: list.splits)

lemma takeWhile_neq_all: "c \<notin> set xs \<Longrightarrow> takeWhile (\<lambda>x. x \<noteq> c) xs = xs"
  by (induction xs) auto

lemma last_split_on: "last (split_on c s) = rev (takeWhile (\<lambda>x. x \<noteq> c) (rev s))"
proof (cases "c \<in> set s")
  case False
  then show ?thesis by (simp add: split_on_without takeWhile_neq_all)
next
  case True
  then show ?thesis
  proof (induction s)
    case Nil
    then show ?case by simp
  next
    case (Cons x xs)
    show ?case
    proof (cases "c \<in> set xs")
      case True
      with Cons.IH have ih: "last (split_on c xs) = rev (takeWhile (\<lambda>x. x \<noteq> c) (rev xs))"
        by simp
      from True have "tl (split_on c xs) \<noteq> []" by (rule split_on_with)
      then obtain w v ws where sp: "split_on c xs = w # v # ws"
        by (cases "split_on c xs"; cases "tl (split_on c xs)") auto
      from True have "takeWhile (\<lambda>x. x \<noteq> c) (rev xs @ [x]) = takeWhile (\<lambda>x. x \<noteq> c) (rev xs)"
        by (auto simp: takeWhile_append)
      with ih sp show ?thesis by auto
    next
      case False
      with Cons.prems have "x = c" by simp
      with False show ?thesis
        by (simp add: split_on_without takeWhile_append takeWhile_neq_all)
    qed
  qed
qed

lemma pop_split_on: "pop (split_on CHR ''.'' f) = Some (extension f)"
  by (simp add: pop_def split_on_nonempty last_split_on extension_def)

lemma mimeTypes_nonempty: "map_of mimeTypes k = Some m \<Longrightarrow> m \<noteq> []"
  by (auto simp: mimeTypes_def split: if_splits)

lemma getMimeType_lookup:
  "getMimeType f =
     (case get_prop mimeTypes (toLowerCase (extension f)) of
        Absent \<Rightarrow> Mime ''text/plain'' | Own m \<Rightarrow> Mime m | Inherited k \<Rightarrow> MimeInherited k)"
proof -
  let ?e = "toLowerCase (extension f)"
  have "(if ?e = [] then [] else ?e) = ?e"
    by simp
  then have "getMimeType f =
      (case get_prop mimeTypes ?e of
         Absent \<Rightarrow> Mime ''text/plain''
       | Own m \<Rightarrow> if m = [] then Mime ''text/plain'' else Mime m
       | Inherited k \<Rightarrow> MimeInherited k)"
    by (simp add: getMimeType_def pop_split_on Let_def)
  moreover have "get_prop mimeTypes ?e = Own m \<Longrightarrow> m \<noteq> []" for m
    by (simp add: get_prop_Own mimeTypes_nonempty)
  ultimately show ?thesis
    by (auto split: property.splits)
qed

lemma extension_without_dot: "CHR ''.'' \<notin> set f \<Longrightarrow> extension f = f"
  by (simp add: extension_def takeWhile_neq_all)

lemma extension_after_last_dot:
  "CHR ''.'' \<notin> set b \<Longrightarrow> extension (a @ CHR ''.'' # b) = b"
  by (simp add: extension_def takeWhile_append takeWhile_neq_all)

text \<open>
  The table is a plain object, so a lookup also finds the names that every object
  inherits: for the extension \<^verbatim>\<open>constructor\<close> the function \<^verbatim>\<open>Object\<close> is returned, and
  for \<^verbatim>\<open>__proto__\<close> the object \<^verbatim>\<open>Object.prototype\<close>.
\<close>

lemma getMimeType_inherited:
  "getMimeType ''x.constructor'' = MimeInherited ''constructor'' \<and>
   getMimeType ''__proto__'' = MimeInherited ''__proto__''"
  by code_simp

text \<open>
  C5, as stated, promises \<^verbatim>\<open>text/plain\<close> for every file name without a dot.  The code
  takes the last element of \<^verbatim>\<open>filename.split(".")\<close>, which for a name without a dot
  is the whole name: the file name \<^verbatim>\<open>json\<close> has no dot and gets
  \<^verbatim>\<open>application/json\<close>.
\<close>

theorem getMimeType_no_dot_counterexample:
  "CHR ''.'' \<notin> set ''json'' \<and> getMimeType ''json'' \<noteq> Mime ''text/plain''"
  by code_simp

text \<open>
  C5, amended: the MIME type of a file name is found by taking the text after its last
  dot, or the whole name when it has no dot, in lower case.  When that text is not the
  name of a property of \<^verbatim>\<open>Object.prototype\<close>, it is looked up in the table json, xml,
  csv, txt, html, md, yaml, yml, and every other text gives \<^verbatim>\<open>text/plain\<close>.
\<close>

theorem getMimeType_by_extension:
  "(CHR ''.'' \<notin> set f \<longrightarrow> extension f = f) \<and>
   (\<forall>a b. f = a @ CHR ''.'' # b \<and> CHR ''.'' \<notin> set b \<longrightarrow> extension f = b) \<and>
   (toLowerCase (extension f) \<notin> set object_prototype_names \<longrightarrow>
    getMimeType f =
      Mime (let e = toLowerCase (extension f) in
        if e = ''json'' then ''application/json''
        else if e = ''xml'' then ''application/xml''
        else if e = ''csv'' then ''text/csv''
        else if e = ''txt'' then ''text/plain''
        else if e = ''html'' then ''text/html''
        else if e = ''md'' then ''text/markdown''
        else if e = ''yaml'' \<or> e = ''yml'' then ''text/yaml''
        else ''text/plain''))"
proof (intro conjI allI impI)
  assume "CHR ''.'' \<notin> set f"
  then show "extension f = f" by (rule extension_without_dot)
next
  fix a b
  assume "f = a @ CHR ''.'' # b \<and> CHR ''.'' \<notin> set b"
  then show "extension f = b" by (simp add: extension_after_last_dot)
next
  assume n: "toLowerCase (extension f) \<notin> set object_prototype_names"
  have g: "getMimeType f =
      (case map_of mimeTypes (toLowerCase (extension f)) of
         None \<Rightarrow> Mime ''text/plain'' | Some m \<Rightarrow> Mime m)"
    using n by (simp add: getMimeType_lookup get_prop_def split: option.splits)
  show "getMimeType f =
      Mime (let e = toLowerCase (extension f) in
        if e = ''json'' then ''application/json''
        else if e = ''xml'' then ''application/xml''
        else if e = ''csv'' then ''text/csv''
        else if e = ''txt'' then ''text/plain''
        else if e = ''html'' then ''text/html''
        else if e = ''md'' then ''text/markdown''
        else if e = ''yaml'' \<or> e = ''yml'' then ''text/yaml''
        else ''text/plain'')"
    unfolding g Let_def mimeTypes_def by simp
qed

theorem getMimeType_by_extension_witness:
  "extension ''README'' = ''README'' \<and> getMimeType ''README'' = Mime ''text/plain'' \<and>
   extension ''data.v2.JSON'' = ''JSON'' \<and>
   getMimeType ''data.v2.JSON'' = Mime ''application/json'' \<and>
   getMimeType ''notes.Yml'' = Mime ''text/yaml'' \<and>
   getMimeType ''archive.zip'' = Mime ''text/plain'' \<and>
   getMimeType ''a.toString'' = Mime ''text/plain''"
proof -
  have low:
    "toLowerCase ''README'' = ''readme''" "toLowerCase ''JSON'' = ''json''"
    "toLowerCase (extension ''notes.Yml'') = ''yml''"
    "toLowerCase (extension ''archive.zip'') = ''zip''"
    "toLowerCase (extension ''a.toString'') = ''tostring''"
    by code_simp+
  have own:
    "''readme'' \<notin> set object_prototype_names" "''json'' \<notin> set object_prototype_names"
    "''yml'' \<notin> set object_prototype_names" "''zip'' \<notin> set object_prototype_names"
    "''tostring'' \<notin> set object_prototype_names"
    by code_simp+
  have nodot: "CHR ''.'' \<notin> set ''README''" "CHR ''.'' \<notin> set ''JSON''"
    by simp_all
  have split: "''data.v2.JSON'' = ''data.v2'' @ CHR ''.'' # ''JSON''"
    by simp
  note a1 = getMimeType_by_extension [of "''README''", THEN conjunct1, THEN mp, OF nodot(1)]
  have ha: "toLowerCase (extension ''README'') \<notin> set object_prototype_names"
    by (simp add: a1 low own)
  note a2 = getMimeType_by_extension [of "''README''", THEN conjunct2, THEN conjunct2,
      THEN mp, OF ha, unfolded a1 low Let_def]
  have sp: "''data.v2.JSON'' = ''data.v2'' @ CHR ''.'' # ''JSON'' \<and> CHR ''.'' \<notin> set ''JSON''"
    using split nodot(2) by simp
  note b = getMimeType_by_extension [of "''data.v2.JSON''", THEN conjunct2, THEN conjunct1,
      THEN spec, THEN spec, THEN mp, OF sp]
  have hb: "toLowerCase (extension ''data.v2.JSON'') \<notin> set object_prototype_names"
    by (simp add: b low own)
  note c = getMimeType_by_extension [of "''data.v2.JSON''", THEN conjunct2, THEN conjunct2,
      THEN mp, OF hb, unfolded b low Let_def]
  have hd: "toLowerCase (extension ''notes.Yml'') \<notin> set object_prototype_names"
    by (simp add: low own)
  note d = getMimeType_by_extension [of "''notes.Yml''", THEN conjunct2, THEN conjunct2,
      THEN mp, OF hd, unfolded low Let_def]
  have he: "toLowerCase (extension ''archive.zip'') \<notin> set object_prototype_names"
    by (simp add: low own)
  note e = getMimeType_by_extension [of "''archive.zip''", THEN conjunct2, THEN conjunct2,
      THEN mp, OF he, unfolded low Let_def]
  have hf: "toLowerCase (extension ''a.toString'') \<notin> set object_prototype_names"
    by (simp add: low own)
  note f = getMimeType_by_extension [of "''a.toString''", THEN conjunct2, THEN conjunct2,
      THEN mp, OF hf, unfolded low Let_def]
  have "getMimeType ''README'' = Mime ''text/plain''" using a2 by simp
  moreover have "getMimeType ''data.v2.JSON'' = Mime ''application/json''" using c by simp
  moreover have "getMimeType ''notes.Yml'' = Mime ''text/yaml''" using d by simp
  moreover have "getMimeType ''archive.zip'' = Mime ''text/plain''" using e by simp
  moreover have "getMimeType ''a.toString'' = Mime ''text/plain''" using f by simp
  ultimately show ?thesis using a1 b by simp
qed

subsection \<open>Value mapping\<close>

lemma map_of_filter_key:
  "(\<And>e. P e = Q (fst e)) \<Longrightarrow> map_of (filter P xs) k = (if Q k then map_of xs k else None)"
  by (induction xs) auto

lemma map_of_insort_key:
  "(\<And>e. f e = g (fst e)) \<Longrightarrow>
   map_of (insort_key f (a, b) xs) k = (if k = a then Some b else map_of xs k)"
  by (induction xs) auto

lemma map_of_sort_key:
  assumes "\<And>e. f e = g (fst e)"
  shows "map_of (sort_key f xs) k = map_of xs k"
proof (induction xs)
  case Nil
  then show ?case by simp
next
  case (Cons x xs)
  obtain a b where x: "x = (a, b)" by (cases x)
  from Cons.IH show ?case by (simp add: x map_of_insort_key [of f g, OF assms])
qed

lemma map_of_Object_entries: "map_of (Object_entries obj) k = map_of obj k"
proof -
  have i: "map_of (filter is_index obj) k =
      (if array_index k \<noteq> None then map_of obj k else None)"
    by (rule map_of_filter_key) (simp add: is_index_def)
  have n: "map_of (filter (\<lambda>e. \<not> is_index e) obj) k =
      (if array_index k = None then map_of obj k else None)"
    by (rule map_of_filter_key) (simp add: is_index_def)
  have s: "map_of (sort_key index_of (filter is_index obj)) k = map_of (filter is_index obj) k"
    by (rule map_of_sort_key [where g = "\<lambda>a. case array_index a of Some n \<Rightarrow> n | None \<Rightarrow> 0"])
      (simp add: index_of_def)
  show ?thesis
    by (simp add: Object_entries_def map_add_def s i n split: option.splits)
qed

lemma map_of_applyMapping_other:
  "f \<noteq> outputField m \<Longrightarrow> map_of (applyMapping rt row m acc) f = map_of acc f"
  by (simp add: applyMapping_def Let_def map_of_set_prop_other)

lemma map_of_foldl_applyMapping_other:
  "f \<notin> outputField ` set ms \<Longrightarrow>
   map_of (foldl (\<lambda>acc m. applyMapping rt row m acc) acc ms) f = map_of acc f"
  by (induction ms arbitrary: acc) (simp_all add: map_of_applyMapping_other)

lemma map_of_mapRow_other:
  "f \<notin> outputField ` set ms \<Longrightarrow> map_of (mapRow rt ms row) f = map_of row f"
  by (simp add: mapRow_def map_of_foldl_applyMapping_other map_of_Object_entries)

lemma applyMappings_nth_other:
  "i < length rows \<Longrightarrow> f \<notin> outputField ` set (case mappings of None \<Rightarrow> [] | Some ms \<Rightarrow> ms) \<Longrightarrow>
   map_of (applyMappings rt rows mappings ! i) f = map_of (rows ! i) f"
  by (auto simp: applyMappings_def map_of_mapRow_other split: option.splits)

lemma forMappings_h_rows:
  "r \<noteq> mr \<Longrightarrow> mr < length (row_objs h) \<Longrightarrow>
   forMappings_h rt r mr ms h =
     h\<lparr>row_objs := (row_objs h)[mr := foldl (\<lambda>acc m. applyMapping rt (row_objs h ! r) m acc) (row_objs h ! mr) ms]\<rparr>"
  by (induction ms arbitrary: h) auto

lemma mapRow_h_eq:
  "r < length (row_objs h) \<Longrightarrow>
   mapRow_h rt ms r h = (length (row_objs h), h\<lparr>row_objs := row_objs h @ [mapRow rt ms (row_objs h ! r)]\<rparr>)"
  by (simp add: mapRow_h_def Let_def forMappings_h_rows mapRow_def nth_append)

lemma upt_add_Suc: "[n..<n + Suc k] = n # [Suc n..<Suc n + k]"
  by (subst upt_rec) simp

lemma mapRows_h_eq:
  "list_all (\<lambda>r. r < length (row_objs h)) rs \<Longrightarrow>
   mapRows_h rt ms rs h =
     ([length (row_objs h) ..< length (row_objs h) + length rs],
      h\<lparr>row_objs := row_objs h @ map (\<lambda>r. mapRow rt ms (row_objs h ! r)) rs\<rparr>)"
proof (induction rs arbitrary: h)
  case Nil
  then show ?case by simp
next
  case (Cons r rs)
  let ?h1 = "h\<lparr>row_objs := row_objs h @ [mapRow rt ms (row_objs h ! r)]\<rparr>"
  from Cons.prems have r: "r < length (row_objs h)" and rs: "list_all (\<lambda>r. r < length (row_objs h)) rs"
    by simp_all
  from rs have rs1: "list_all (\<lambda>r. r < length (row_objs ?h1)) rs"
    by (auto simp: list_all_iff)
  from rs have same: "map (\<lambda>r. mapRow rt ms (row_objs ?h1 ! r)) rs = map (\<lambda>r. mapRow rt ms (row_objs h ! r)) rs"
    by (auto simp: list_all_iff nth_append)
  have upt: "[length (row_objs h) ..< length (row_objs h) + length (r # rs)] =
      length (row_objs h) # [length (row_objs ?h1) ..< length (row_objs ?h1) + length rs]"
    using upt_add_Suc[of "length (row_objs h)" "length rs"] by simp
  show ?case
    unfolding upt using Cons.IH[OF rs1] r same
    by (simp add: mapRow_h_eq)
qed

lemma applyMappings_h_eq:
  assumes "valid_rows h a" "ms \<noteq> []"
  shows "applyMappings_h rt a (Some ms) h =
     (length (arr_objs h),
      \<lparr>row_objs = row_objs h @ map (mapRow rt ms) (rows_at h a),
       arr_objs = arr_objs h @ [[length (row_objs h) ..< length (row_objs h) + length (arr_objs h ! a)]]\<rparr>)"
  using assms by (simp add: applyMappings_h_def valid_rows_def mapRows_h_eq rows_at_def comp_def)



lemma heap_le_refl: "heap_le h h"
  by (simp add: heap_le_def)

lemma heap_le_row: "heap_le h h' \<Longrightarrow> r < length (row_objs h) \<Longrightarrow> row_objs h' ! r = row_objs h ! r"
  by (auto simp: heap_le_def prefix_def nth_append)

lemma heap_le_arr: "heap_le h h' \<Longrightarrow> a < length (arr_objs h) \<Longrightarrow> arr_objs h' ! a = arr_objs h ! a"
  by (auto simp: heap_le_def prefix_def nth_append)

lemma heap_le_rows_at: "heap_le h h' \<Longrightarrow> valid_rows h a \<Longrightarrow> rows_at h' a = rows_at h a"
  by (auto simp: rows_at_def valid_rows_def list_all_iff heap_le_arr heap_le_row)

lemma applyMappings_h_heap_le:
  assumes "valid_rows h a" "applyMappings_h rt a mappings h = (a', h')"
  shows "heap_le h h'"
proof (cases "mappings = None \<or> mappings = Some []")
  case True
  with assms show ?thesis by (auto simp: applyMappings_h_def heap_le_refl)
next
  case False
  then obtain ms where "mappings = Some ms" "ms \<noteq> []" by auto
  with assms applyMappings_h_eq[of h a ms rt] show ?thesis
    by (auto simp: heap_le_def)
qed

lemma applyMappings_h_rows_at:
  assumes "valid_rows h a" "applyMappings_h rt a mappings h = (a', h')"
  shows "valid_rows h' a' \<and> rows_at h' a' = applyMappings rt (rows_at h a) mappings"
proof (cases "mappings = None \<or> mappings = Some []")
  case True
  with assms show ?thesis by (auto simp: applyMappings_h_def applyMappings_def)
next
  case False
  then obtain ms where ms: "mappings = Some ms" "ms \<noteq> []" by auto
  let ?n = "length (row_objs h)"
  let ?k = "length (arr_objs h ! a)"
  from ms assms applyMappings_h_eq[of h a ms rt]
  have a': "a' = length (arr_objs h)"
    and h': "h' = \<lparr>row_objs = row_objs h @ map (mapRow rt ms) (rows_at h a),
       arr_objs = arr_objs h @ [[?n ..< ?n + ?k]]\<rparr>"
    by simp_all
  have len: "length (rows_at h a) = ?k" by (simp add: rows_at_def)
  have "rows_at h' a' = map (\<lambda>r. (row_objs h @ map (mapRow rt ms) (rows_at h a)) ! r) [?n ..< ?n + ?k]"
    by (simp add: rows_at_def a' h')
  also have "\<dots> = map (mapRow rt ms) (rows_at h a)"
    by (rule nth_equalityI) (simp_all add: len nth_append)
  finally have "rows_at h' a' = applyMappings rt (rows_at h a) mappings"
    using ms by (simp add: applyMappings_def)
  moreover have "valid_rows h' a'"
    by (auto simp: valid_rows_def a' h' list_all_iff len)
  ultimately show ?thesis by simp
qed

text \<open>
  C1 does not hold of the code when the string form of a source value is the name of a
  property that the lookup table inherits.  With the rule that maps column \<^verbatim>\<open>code\<close> to
  field \<^verbatim>\<open>label\<close> through the table \<^verbatim>\<open>{A: "Alpha"}\<close> with default \<^verbatim>\<open>"Unknown"\<close>, the row
  \<^verbatim>\<open>{code: "constructor"}\<close> has a value that is not a key of the table, so that the
  default is due; \<^verbatim>\<open>map[key]\<close> finds the inherited function \<^verbatim>\<open>Object\<close>, which is not
  \<^verbatim>\<open>undefined\<close>, and the code writes it to \<^verbatim>\<open>label\<close>.  The row \<^verbatim>\<open>{code: "B"}\<close> gets the
  default.  With the destination \<^verbatim>\<open>__proto__\<close> in the place of \<^verbatim>\<open>label\<close>, the assignment
  of the default stores no field.
\<close>

theorem applyMappings_inherited_key:
  "applyMappings example_runtime
     [[(''code'', JStr ''constructor'')], [(''code'', JStr ''B'')]]
     (Some [\<lparr>column = ''code'', outputField = ''label'',
             map_table = [(''A'', MStr ''Alpha'')], default_value = MStr ''Unknown''\<rparr>]) =
   [[(''code'', JStr ''constructor''), (''label'', JInherited ''constructor'')],
    [(''code'', JStr ''B''), (''label'', JStr ''Unknown'')]] \<and>
   applyMappings example_runtime [[(''code'', JStr ''B'')]]
     (Some [\<lparr>column = ''code'', outputField = ''__proto__'',
             map_table = [(''A'', MStr ''Alpha'')], default_value = MStr ''Unknown''\<rparr>]) =
   [[(''code'', JStr ''B'')]]"
  by code_simp

text \<open>
  C6: \<open>applyMappings\<close> changes no object that existed before the call.  Every row
  object and every array of the store is unchanged at its address, so the input rows
  read through the input reference are the same afterwards; when there are rules, the
  result is a new array of new, pairwise different row objects.  In every output row, a
  field that is no rule's destination has the value it has in the input row.
\<close>

theorem applyMappings_h_never_mutates:
  assumes "valid_rows h rows" and "applyMappings_h rt rows mappings h = (result, h')"
  shows "(\<forall>r<length (row_objs h). row_objs h' ! r = row_objs h ! r) \<and>
    (\<forall>a<length (arr_objs h). arr_objs h' ! a = arr_objs h ! a) \<and>
    rows_at h' rows = rows_at h rows \<and>
    valid_rows h' result \<and>
    rows_at h' result = applyMappings rt (rows_at h rows) mappings \<and>
    length (rows_at h' result) = length (rows_at h rows) \<and>
    (mappings \<noteq> None \<and> mappings \<noteq> Some [] \<longrightarrow>
       length (arr_objs h) \<le> result \<and>
       distinct (arr_objs h' ! result) \<and>
       (\<forall>r\<in>set (arr_objs h' ! result). length (row_objs h) \<le> r)) \<and>
    (\<forall>i<length (rows_at h rows). \<forall>f.
       f \<notin> outputField ` set (case mappings of None \<Rightarrow> [] | Some ms \<Rightarrow> ms) \<longrightarrow>
       map_of (rows_at h' result ! i) f = map_of (rows_at h rows ! i) f)"
proof -
  from assms have le: "heap_le h h'" by (rule applyMappings_h_heap_le)
  from assms have ra: "valid_rows h' result"
    "rows_at h' result = applyMappings rt (rows_at h rows) mappings"
    using applyMappings_h_rows_at by blast+
  have len: "length (applyMappings rt (rows_at h rows) mappings) = length (rows_at h rows)"
    by (simp add: applyMappings_def split: option.splits)
  have fresh: "length (arr_objs h) \<le> result \<and> distinct (arr_objs h' ! result) \<and>
       (\<forall>r\<in>set (arr_objs h' ! result). length (row_objs h) \<le> r)"
    if "mappings \<noteq> None \<and> mappings \<noteq> Some []"
  proof -
    from that obtain ms where "mappings = Some ms" "ms \<noteq> []" by auto
    with assms applyMappings_h_eq[of h rows ms rt] show ?thesis by auto
  qed
  have other: "map_of (rows_at h' result ! i) f = map_of (rows_at h rows ! i) f"
    if "i < length (rows_at h rows)"
      "f \<notin> outputField ` set (case mappings of None \<Rightarrow> [] | Some ms \<Rightarrow> ms)" for i f
    using that by (simp add: ra applyMappings_nth_other)
  from le assms(1) show ?thesis
    using ra len fresh other by (simp add: heap_le_row heap_le_arr heap_le_rows_at)
qed

theorem applyMappings_h_never_mutates_witness:
  "(let h = \<lparr>row_objs = [[(''code'', JStr ''A'')], [(''code'', JNull), (''label'', JStr ''old'')]],
              arr_objs = [[0, 1, 0]]\<rparr>;
        ms = [\<lparr>column = ''code'', outputField = ''label'', map_table = [(''A'', MStr ''Alpha'')],
                default_value = MNum 0\<rparr>]
    in case applyMappings_h example_runtime 0 (Some ms) h of
         (result, h') \<Rightarrow>
           valid_rows h 0 \<and>
           row_objs h' ! 0 = [(''code'', JStr ''A'')] \<and>
           row_objs h' ! 1 = [(''code'', JNull), (''label'', JStr ''old'')] \<and>
           arr_objs h' ! 0 = [0, 1, 0] \<and>
           length (rows_at h' result) = 3 \<and>
           1 \<le> result \<and> distinct (arr_objs h' ! result) \<and>
           map_of (rows_at h' result ! 1) ''code'' = Some JNull)"
proof -
  let ?h = "\<lparr>row_objs = [[(''code'', JStr ''A'')], [(''code'', JNull), (''label'', JStr ''old'')]],
              arr_objs = [[0, 1, 0]]\<rparr> :: nat heap"
  let ?ms = "[\<lparr>column = ''code'', outputField = ''label'', map_table = [(''A'', MStr ''Alpha'')],
                default_value = MNum (0::nat)\<rparr>]"
  obtain result h' where ev: "applyMappings_h example_runtime 0 (Some ?ms) ?h = (result, h')"
    by (cases "applyMappings_h example_runtime 0 (Some ?ms) ?h")
  have v: "valid_rows ?h 0" by (simp add: valid_rows_def)
  note t = applyMappings_h_never_mutates [OF v ev]
  have ne: "Some ?ms \<noteq> None \<and> Some ?ms \<noteq> Some []" by simp
  have other: "''code'' \<notin> outputField ` set (case Some ?ms of None \<Rightarrow> [] | Some ms \<Rightarrow> ms)"
    by simp
  have ra: "rows_at ?h 0 = [[(''code'', JStr ''A'')], [(''code'', JNull), (''label'', JStr ''old'')],
      [(''code'', JStr ''A'')]]"
    by (simp add: rows_at_def)
  have lt: "0 < length (row_objs ?h)" "1 < length (row_objs ?h)" "0 < length (arr_objs ?h)"
    "1 < length (rows_at ?h 0)"
    by (simp_all add: rows_at_def)
  from t lt have "row_objs h' ! 0 = row_objs ?h ! 0" "row_objs h' ! 1 = row_objs ?h ! 1"
    "arr_objs h' ! 0 = arr_objs ?h ! 0" by blast+
  moreover from t have "length (rows_at h' result) = length (rows_at ?h 0)" by blast
  moreover from t ne have "length (arr_objs ?h) \<le> result" "distinct (arr_objs h' ! result)"
    by blast+
  moreover from t other lt
  have "map_of (rows_at h' result ! 1) ''code'' = map_of (rows_at ?h 0 ! 1) ''code''"
    by blast
  ultimately show ?thesis
    unfolding Let_def ev using v by (simp add: rows_at_def)
qed

text \<open>
  C7 does not hold of the code for a table whose key is the name of an inherited
  property.  With the tables \<^verbatim>\<open>{constructor: rows}\<close> and no rule list at all,
  \<^verbatim>\<open>tableMappings[tableKey]\<close> is the inherited function \<^verbatim>\<open>Object\<close>, which is truthy and
  has length 1: \<open>applyMappingsToTables\<close> calls \<open>applyMappings\<close> with it, which throws a
  \<^verbatim>\<open>TypeError\<close> when the table has a row, and returns a new array, not the reference it
  was given, when the table has none.  The table \<^verbatim>\<open>items\<close> is passed through.
\<close>

theorem applyMappingsToTables_inherited_key:
  "applyMappingsToTables_h example_runtime [(''constructor'', 0)] []
     \<lparr>row_objs = [[(''sku'', JNum 4)]], arr_objs = [[0]]\<rparr> = Inl TypeError \<and>
   applyMappingsToTables_h example_runtime [(''constructor'', 0)] []
     \<lparr>row_objs = [], arr_objs = [[]]\<rparr> =
     Inr ([(''constructor'', 1)], \<lparr>row_objs = [], arr_objs = [[], []]\<rparr>) \<and>
   applyMappingsToTables_h example_runtime [(''items'', 0)] []
     \<lparr>row_objs = [[(''sku'', JNum 4)]], arr_objs = [[0]]\<rparr> =
     Inr ([(''items'', 0)], \<lparr>row_objs = [[(''sku'', JNum 4)]], arr_objs = [[0]]\<rparr>)"
  by code_simp

subsection \<open>Rendering\<close>

lemma forOutputs_fail:
  assumes "\<forall>(k, out) \<in> set pre. \<exists>r. renderOutput env out ctx = Inr r"
    and "renderOutput env out ctx = Inl e"
  shows "forOutputs env ctx (pre @ (k, out) # post) acc =
     Inl (ErrorObj (''Error rendering output '' @ [CHR 0x22] @ k @ [CHR 0x22] @ '': '' @ thrown_message e))"
  using assms by (induction pre arbitrary: acc) auto

lemma forOutputs_ok:
  assumes "\<forall>(k, out) \<in> set outs. \<exists>r. renderOutput env out ctx = Inr r"
  shows "\<exists>rs. forOutputs env ctx outs acc = Inr (acc @ rs) \<and>
     list_all2 (\<lambda>(k, out) r. \<exists>r0. renderOutput env out ctx = Inr r0 \<and> r = r0\<lparr>name := k\<rparr>) outs rs"
  using assms
proof (induction outs arbitrary: acc)
  case Nil
  then show ?case by simp
next
  case (Cons a outs)
  obtain k out where a: "a = (k, out)" by (cases a)
  from Cons.prems a obtain r0 where r0: "renderOutput env out ctx = Inr r0" by auto
  from Cons.prems have "\<forall>(k, out) \<in> set outs. \<exists>r. renderOutput env out ctx = Inr r" by simp
  from Cons.IH[OF this, of "acc @ [r0\<lparr>name := k\<rparr>]"] obtain rs where
    rs: "forOutputs env ctx outs (acc @ [r0\<lparr>name := k\<rparr>]) = Inr (acc @ [r0\<lparr>name := k\<rparr>] @ rs)"
      "list_all2 (\<lambda>(k, out) r. \<exists>r0. renderOutput env out ctx = Inr r0 \<and> r = r0\<lparr>name := k\<rparr>) outs rs"
    by auto
  show ?case
    by (rule exI[of _ "r0\<lparr>name := k\<rparr> # rs"]) (simp add: a r0 rs)
qed

lemma forOutputs_names:
  "forOutputs env ctx outs acc = Inr rs \<Longrightarrow> map name rs = map name acc @ map fst outs"
proof (induction outs arbitrary: acc)
  case Nil
  then show ?case by simp
next
  case (Cons a outs)
  obtain k out where a: "a = (k, out)" by (cases a)
  show ?case
  proof (cases "renderOutput env out ctx")
    case (Inl e)
    with Cons.prems a show ?thesis by simp
  next
    case (Inr r)
    with Cons.prems a have "forOutputs env ctx outs (acc @ [r\<lparr>name := k\<rparr>]) = Inr rs" by simp
    then have "map name rs = map name (acc @ [r\<lparr>name := k\<rparr>]) @ map fst outs" by (rule Cons.IH)
    with a show ?thesis by simp
  qed
qed

lemma first_failure:
  assumes "\<exists>(k, out) \<in> set outs. \<exists>e. renderOutput env out ctx = Inl e"
  shows "\<exists>pre k out post e. outs = pre @ (k, out) # post \<and>
     (\<forall>(k', out') \<in> set pre. \<exists>r. renderOutput env out' ctx = Inr r) \<and>
     renderOutput env out ctx = Inl e"
  using assms
proof (induction outs)
  case Nil
  then show ?case by simp
next
  case (Cons a outs)
  obtain k out where a: "a = (k, out)" by (cases a)
  show ?case
  proof (cases "renderOutput env out ctx")
    case (Inl e)
    then show ?thesis
      unfolding a by (intro exI[of _ "[]"] exI[of _ k] exI[of _ out] exI[of _ outs] exI[of _ e]) simp
  next
    case (Inr r)
    with Cons.prems a have "\<exists>(k, out) \<in> set outs. \<exists>e. renderOutput env out ctx = Inl e" by auto
    from Cons.IH[OF this] obtain pre k' out' post e where
      p: "outs = pre @ (k', out') # post"
        "\<forall>(k', out') \<in> set pre. \<exists>r. renderOutput env out' ctx = Inr r"
        "renderOutput env out' ctx = Inl e"
      by blast
    show ?thesis
      unfolding a using p Inr
      by (intro exI[of _ "(k, out) # pre"] exI[of _ k'] exI[of _ out'] exI[of _ post] exI[of _ e]) simp
  qed
qed

text \<open>
  C2, as stated, promises the results in the declared order of the outputs.  The loop
  runs over \<^verbatim>\<open>Object.entries(outputs)\<close>, which lists the keys that are array indices
  first, in ascending order: outputs declared as \<^verbatim>\<open>b\<close>, \<^verbatim>\<open>2\<close>, \<^verbatim>\<open>a\<close> come back as
  \<^verbatim>\<open>2\<close>, \<^verbatim>\<open>b\<close>, \<^verbatim>\<open>a\<close>.
\<close>

theorem renderAllOutputs_order_counterexample:
  "(let out = \<lparr>cfg_filename = Some ''a.json'', cfg_template = Some ''x'', cfg_description = None\<rparr>;
        outs = [(''b'', out), (''2'', out), (''a'', out)];
        r = \<lparr>name = ''a.json'', filename = ''a.json'', content = ''x'',
             mimeType = Mime ''application/json''\<rparr>
    in map fst outs = [''b'', ''2'', ''a''] \<and>
       renderAllOutputs example_engine outs
         \<lparr>globals = [], data = [], currentdatetime = ''2024-01-05_09-03-07''\<rparr> =
       Inr [r\<lparr>name := ''2''\<rparr>, r\<lparr>name := ''b''\<rparr>, r\<lparr>name := ''a''\<rparr>])"
  by code_simp

text \<open>
  C2, amended: the outputs are rendered in the order of \<^verbatim>\<open>Object.entries\<close>: those whose
  key is an array index first, by ascending index, then the others in their declared
  order (so in declared order when no key is an array index).  When some output fails to
  render, \<open>renderAllOutputs\<close> throws an error whose message is built from the key of the
  first failing output in that order and the message of its failure, and returns no
  list; when every output renders, it returns the results in that order, each with its
  name replaced by its key.
\<close>

theorem renderAllOutputs_fail_fast:
  "((\<exists>(k, out) \<in> set outs. \<exists>e. renderOutput env out ctx = Inl e) \<longrightarrow>
      (\<exists>pre k out post e msg. Object_entries outs = pre @ (k, out) # post \<and>
         (\<forall>(k', out') \<in> set pre. \<exists>r. renderOutput env out' ctx = Inr r) \<and>
         renderOutput env out ctx = Inl e \<and>
         renderAllOutputs env outs ctx = Inl (ErrorObj msg) \<and>
         msg = ''Error rendering output '' @ [CHR 0x22] @ k @ [CHR 0x22] @ '': ''
                 @ thrown_message e \<and>
         sublist k msg \<and> sublist (thrown_message e) msg)) \<and>
   ((\<forall>(k, out) \<in> set outs. \<exists>r. renderOutput env out ctx = Inr r) \<longrightarrow>
      (\<exists>rs. renderAllOutputs env outs ctx = Inr rs \<and>
         list_all2 (\<lambda>(k, out) r. \<exists>r0. renderOutput env out ctx = Inr r0 \<and> r = r0\<lparr>name := k\<rparr>)
           (Object_entries outs) rs \<and>
         map name rs = map fst (Object_entries outs))) \<and>
   mset (Object_entries outs) = mset outs \<and>
   Object_entries outs =
     filter is_index (Object_entries outs) @ filter (\<lambda>e. \<not> is_index e) outs \<and>
   sorted (map index_of (filter is_index (Object_entries outs))) \<and>
   ((\<forall>e \<in> set outs. \<not> is_index e) \<longrightarrow> Object_entries outs = outs)"
proof (intro conjI impI)
  assume "\<exists>(k, out) \<in> set outs. \<exists>e. renderOutput env out ctx = Inl e"
  then have "\<exists>(k, out) \<in> set (Object_entries outs). \<exists>e. renderOutput env out ctx = Inl e"
    by (simp only: set_Object_entries)
  from first_failure[OF this] obtain pre k out post e where
    p: "Object_entries outs = pre @ (k, out) # post"
      "\<forall>(k', out') \<in> set pre. \<exists>r. renderOutput env out' ctx = Inr r"
      "renderOutput env out ctx = Inl e"
    by blast
  define msg where "msg = ''Error rendering output '' @ [CHR 0x22] @ k @ [CHR 0x22] @ '': ''
                 @ thrown_message e"
  have s1: "sublist k msg"
    unfolding msg_def sublist_def
    by (intro exI [of _ "''Error rendering output '' @ [CHR 0x22]"]
        exI [of _ "[CHR 0x22] @ '': '' @ thrown_message e"]) simp
  have s2: "sublist (thrown_message e) msg"
    unfolding msg_def sublist_def
    by (intro exI [of _ "''Error rendering output '' @ [CHR 0x22] @ k @ [CHR 0x22] @ '': ''"]
        exI [of _ "[]"]) simp
  from forOutputs_fail[OF p(2,3), of k post "[]"]
  have r: "renderAllOutputs env outs ctx = Inl (ErrorObj msg)"
    unfolding renderAllOutputs_def p(1) msg_def .
  from p r s1 s2
  show "\<exists>pre k out post e msg. Object_entries outs = pre @ (k, out) # post \<and>
         (\<forall>(k', out') \<in> set pre. \<exists>r. renderOutput env out' ctx = Inr r) \<and>
         renderOutput env out ctx = Inl e \<and>
         renderAllOutputs env outs ctx = Inl (ErrorObj msg) \<and>
         msg = ''Error rendering output '' @ [CHR 0x22] @ k @ [CHR 0x22] @ '': ''
                 @ thrown_message e \<and>
         sublist k msg \<and> sublist (thrown_message e) msg"
    unfolding msg_def [symmetric]
    by (intro exI [of _ pre] exI [of _ k] exI [of _ out] exI [of _ post] exI [of _ e]
        exI [of _ msg] conjI) (simp_all add: msg_def)
next
  assume "\<forall>(k, out) \<in> set outs. \<exists>r. renderOutput env out ctx = Inr r"
  then have "\<forall>(k, out) \<in> set (Object_entries outs). \<exists>r. renderOutput env out ctx = Inr r"
    by (simp only: set_Object_entries)
  from forOutputs_ok[OF this, of "[]"] obtain rs where
    rs: "renderAllOutputs env outs ctx = Inr rs"
      "list_all2 (\<lambda>(k, out) r. \<exists>r0. renderOutput env out ctx = Inr r0 \<and> r = r0\<lparr>name := k\<rparr>)
           (Object_entries outs) rs"
    unfolding renderAllOutputs_def by auto
  from rs(1) have "map name rs = map fst (Object_entries outs)"
    using forOutputs_names [of env ctx "Object_entries outs" "[]" rs]
    by (simp add: renderAllOutputs_def)
  with rs
  show "\<exists>rs. renderAllOutputs env outs ctx = Inr rs \<and>
         list_all2 (\<lambda>(k, out) r. \<exists>r0. renderOutput env out ctx = Inr r0 \<and> r = r0\<lparr>name := k\<rparr>)
           (Object_entries outs) rs \<and>
         map name rs = map fst (Object_entries outs)"
    by (intro exI conjI)
next
  show "mset (Object_entries outs) = mset outs"
    by (rule mset_Object_entries)
next
  show "Object_entries outs =
     filter is_index (Object_entries outs) @ filter (\<lambda>e. \<not> is_index e) outs"
    using Object_entries_indices_first [of outs]
    by (simp only: Object_entries_others_in_order)
next
  show "sorted (map index_of (filter is_index (Object_entries outs)))"
    by (rule Object_entries_indices_sorted)
next
  assume "\<forall>e \<in> set outs. \<not> is_index e"
  then show "Object_entries outs = outs"
    by (rule Object_entries_no_index)
qed

theorem renderAllOutputs_fail_fast_witness:
  "(let ctx = \<lparr>globals = [], data = [], currentdatetime = ''2024-01-05_09-03-07''\<rparr>;
        good = \<lparr>cfg_filename = Some ''a.json'', cfg_template = Some ''x'', cfg_description = None\<rparr>;
        bad = \<lparr>cfg_filename = Some ''b.csv'', cfg_template = Some ''{% for'',
                cfg_description = None\<rparr>
    in (\<exists>e. renderAllOutputs example_engine [(''first'', good), (''second'', bad)] ctx = Inl e) \<and>
       (\<exists>rs. renderAllOutputs example_engine [(''first'', good), (''third'', good)] ctx = Inr rs \<and>
          map name rs = [''first'', ''third'']) \<and>
       (\<exists>rs. renderAllOutputs example_engine [(''b'', good), (''10'', good), (''2'', good)] ctx
                = Inr rs \<and>
          map name rs = [''2'', ''10'', ''b'']))"
proof -
  define ctx :: "nat TemplateContext"
    where "ctx = \<lparr>globals = [], data = [], currentdatetime = ''2024-01-05_09-03-07''\<rparr>"
  define good where "good = \<lparr>cfg_filename = Some ''a.json'', cfg_template = Some ''x'', cfg_description = None\<rparr>"
  define bad where "bad = \<lparr>cfg_filename = Some ''b.csv'', cfg_template = Some ''{% for'', cfg_description = None\<rparr>"
  have g: "renderOutput example_engine good ctx =
      Inr \<lparr>name = ''a.json'', filename = ''a.json'', content = ''x'',
        mimeType = Mime ''application/json''\<rparr>"
    unfolding good_def ctx_def by code_simp
  have b: "renderOutput example_engine bad ctx = Inl (ErrorObj ''unexpected end of file'')"
    unfolding bad_def ctx_def by code_simp
  note T1 = renderAllOutputs_fail_fast [of "[(''first'', good), (''second'', bad)]" example_engine ctx]
  note T2 = renderAllOutputs_fail_fast [of "[(''first'', good), (''third'', good)]" example_engine ctx]
  note T3 = renderAllOutputs_fail_fast [of "[(''b'', good), (''10'', good), (''2'', good)]"
      example_engine ctx]
  from b have h1: "\<exists>(k, out) \<in> set [(''first'', good), (''second'', bad)].
      \<exists>e. renderOutput example_engine out ctx = Inl e"
    by simp
  from T1 [THEN conjunct1, THEN mp, OF h1]
  have 1: "\<exists>e. renderAllOutputs example_engine [(''first'', good), (''second'', bad)] ctx = Inl e"
    by (elim exE conjE) (rule exI)
  from g have h2: "\<forall>(k, out) \<in> set [(''first'', good), (''third'', good)].
      \<exists>r. renderOutput example_engine out ctx = Inr r"
    by simp
  have n: "\<not> is_index (''first'', good)" "\<not> is_index (''third'', good)"
    unfolding good_def by code_simp+
  then have h2': "\<forall>e \<in> set [(''first'', good), (''third'', good)]. \<not> is_index e"
    by simp
  note e2 = T2 [THEN conjunct2, THEN conjunct2, THEN conjunct2, THEN conjunct2, THEN conjunct2,
      THEN mp, OF h2']
  from T2 [THEN conjunct2, THEN conjunct1, THEN mp, OF h2]
  have 2: "\<exists>rs. renderAllOutputs example_engine [(''first'', good), (''third'', good)] ctx = Inr rs \<and>
          map name rs = [''first'', ''third'']"
    unfolding e2 by (elim exE conjE) (rule exI, simp)
  from g have h3: "\<forall>(k, out) \<in> set [(''b'', good), (''10'', good), (''2'', good)].
      \<exists>r. renderOutput example_engine out ctx = Inr r"
    by simp
  have e3: "Object_entries [(''b'', good), (''10'', good), (''2'', good)] =
      [(''2'', good), (''10'', good), (''b'', good)]"
    unfolding good_def by code_simp
  from T3 [THEN conjunct2, THEN conjunct1, THEN mp, OF h3]
  have 3: "\<exists>rs. renderAllOutputs example_engine [(''b'', good), (''10'', good), (''2'', good)] ctx
                = Inr rs \<and>
          map name rs = [''2'', ''10'', ''b'']"
    unfolding e3 by (elim exE conjE) (rule exI, simp)
  from 1 2 3 show ?thesis unfolding Let_def ctx_def good_def bad_def by (intro conjI)
qed

text \<open>
  C3: the file name of an output depends on the context only through \<open>globals\<close> and
  \<open>currentdatetime\<close>.  For two contexts that agree on both, whatever their \<open>data\<close>,
  resolving the file name gives the same result, and two successful renderings carry
  the same file name (and so the same name and MIME type).
\<close>

theorem renderOutput_filename_ignores_data:
  assumes "globals c1 = globals c2" and "currentdatetime c1 = currentdatetime c2"
  shows "resolveFilename env (cfg_filename out) c1 = resolveFilename env (cfg_filename out) c2 \<and>
    (\<forall>r1. renderOutput env out c1 = Inr r1 \<longrightarrow>
       resolveFilename env (cfg_filename out) c1 = Inr (filename r1)) \<and>
    (\<forall>r1 r2. renderOutput env out c1 = Inr r1 \<and> renderOutput env out c2 = Inr r2 \<longrightarrow>
       filename r1 = filename r2 \<and> name r1 = name r2 \<and> mimeType r1 = mimeType r2)"
  using assms
  by (auto simp: resolveFilename_def renderOutput_def Let_def split: sum.splits)

theorem renderOutput_filename_ignores_data_witness:
  "(let c1 = \<lparr>globals = [(''project'', JStr ''Acme'')], data = [],
               currentdatetime = ''2024-01-05_09-03-07''\<rparr>;
        c2 = \<lparr>globals = [(''project'', JStr ''Acme'')], data = [(''Orders'', [[(''code'', JNum 1)]])],
               currentdatetime = ''2024-01-05_09-03-07''\<rparr>;
        out = \<lparr>cfg_filename = Some ''t{{ tables }}_{{ currentdatetime }}.json'',
                cfg_template = Some ''{{ tables }} tables'', cfg_description = None\<rparr>
    in globals c1 = globals c2 \<and> currentdatetime c1 = currentdatetime c2 \<and> data c1 \<noteq> data c2 \<and>
       (\<exists>r1 r2. renderOutput example_engine out c1 = Inr r1 \<and>
          renderOutput example_engine out c2 = Inr r2 \<and>
          filename r1 = filename r2 \<and> content r1 \<noteq> content r2))"
proof -
  define c1 :: "nat TemplateContext" where
    "c1 = \<lparr>globals = [(''project'', JStr ''Acme'')], data = [],
               currentdatetime = ''2024-01-05_09-03-07''\<rparr>"
  define c2 :: "nat TemplateContext" where
    "c2 = \<lparr>globals = [(''project'', JStr ''Acme'')], data = [(''Orders'', [[(''code'', JNum 1)]])],
               currentdatetime = ''2024-01-05_09-03-07''\<rparr>"
  define out where
    "out = \<lparr>cfg_filename = Some ''t{{ tables }}_{{ currentdatetime }}.json'',
                cfg_template = Some ''{{ tables }} tables'', cfg_description = None\<rparr>"
  have eq: "globals c1 = globals c2" "currentdatetime c1 = currentdatetime c2"
    by (simp_all add: c1_def c2_def)
  have ne: "data c1 \<noteq> data c2" by (simp add: c1_def c2_def)
  define r1 where "r1 = \<lparr>name = ''t_2024-01-05_09-03-07.json'',
      filename = ''t_2024-01-05_09-03-07.json'', content = ''0 tables'',
      mimeType = Mime ''application/json''\<rparr>"
  define r2 where "r2 = \<lparr>name = ''t_2024-01-05_09-03-07.json'',
      filename = ''t_2024-01-05_09-03-07.json'', content = ''1 tables'',
      mimeType = Mime ''application/json''\<rparr>"
  have r1: "renderOutput example_engine out c1 = Inr r1" "content r1 = ''0 tables''"
    unfolding c1_def out_def r1_def by code_simp+
  have r2: "renderOutput example_engine out c2 = Inr r2" "content r2 = ''1 tables''"
    unfolding c2_def out_def r2_def by code_simp+
  note T = renderOutput_filename_ignores_data [OF eq, of example_engine out]
  from T [THEN conjunct2, THEN conjunct2, THEN spec, THEN spec, THEN mp, OF conjI, OF r1(1) r2(1)]
  have "filename r1 = filename r2" by (rule conjunct1)
  moreover from r1(2) r2(2) have "content r1 \<noteq> content r2" by simp
  ultimately have "\<exists>r1 r2. renderOutput example_engine out c1 = Inr r1 \<and>
          renderOutput example_engine out c2 = Inr r2 \<and>
          filename r1 = filename r2 \<and> content r1 \<noteq> content r2"
    using r1(1) r2(1) by (intro exI conjI)
  with eq ne show ?thesis unfolding Let_def c1_def c2_def out_def by (intro conjI)
qed

text \<open>
  C10 does not hold of the code for a key that is the name of an inherited property.
  The template below has the single output \<^verbatim>\<open>main\<close>.  For the key \<^verbatim>\<open>constructor\<close>, which
  is not among the outputs, \<^verbatim>\<open>template.outputs[outputName]\<close> is the inherited function
  \<^verbatim>\<open>Object\<close>, which is truthy: \<open>previewOutput\<close> does not return \<^verbatim>\<open>null\<close> but builds the
  context and calls \<open>renderOutput\<close> with it, whose file name is \<^verbatim>\<open>undefined\<close>, and the
  engine throws.  For the key \<^verbatim>\<open>other\<close> it returns \<^verbatim>\<open>null\<close>.
\<close>

theorem previewOutput_inherited_key:
  "(let template =
          \<lparr>metadata = Some \<lparr>meta_name = Some ''Demo'', version = Some ''1.0'', description = None\<rparr>,
           tables = Some [\<lparr>table_name = Some ''Orders'', columnMap = None, valueMappings = None\<rparr>],
           template_globals = None,
           outputs = Some [(''main'', \<lparr>cfg_filename = Some ''out_{{ currentdatetime }}.csv'',
                                        cfg_template = Some ''{{ tables }}'', cfg_description = None\<rparr>)]\<rparr>
    in previewOutput example_runtime example_engine example_host template ''constructor'' =
         Inl (Threw (ErrorObj ''src must be a string or an object describing the source'')) \<and>
       previewOutput example_runtime example_engine example_host template ''other'' = Inr None)"
  by code_simp

subsection \<open>The date filter\<close>

lemma replace_first_absent: "\<not> sublist pat s \<Longrightarrow> replace_first pat rep s = s"
proof (induction s)
  case Nil
  then show ?case by auto
next
  case (Cons c cs)
  from Cons.prems have "\<not> prefix pat (c # cs)"
    using prefix_imp_sublist by blast
  moreover from Cons.prems have "\<not> sublist pat cs"
    by (auto simp: sublist_Cons_right)
  ultimately show ?case using Cons.IH by simp
qed

lemma replace_first_prefix: "pat \<noteq> [] \<Longrightarrow> replace_first pat rep (pat @ b) = rep @ b"
  by (cases pat) auto

lemma prefix_same_length: "prefix xs ys \<Longrightarrow> length xs = length ys \<Longrightarrow> xs = ys"
  by (auto simp: prefix_def)

lemma replace_first_first:
  assumes "pat \<noteq> []" and "\<not> sublist pat (a @ butlast pat)"
  shows "replace_first pat rep (a @ pat @ b) = a @ rep @ b"
  using assms(2)
proof (induction a)
  case Nil
  with assms(1) show ?case by (simp add: replace_first_prefix)
next
  case (Cons x a)
  have np: "\<not> prefix pat (x # a @ pat @ b)"
  proof
    assume p: "prefix pat (x # a @ pat @ b)"
    have q: "prefix ((x # a) @ butlast pat) (x # a @ pat @ b)"
      using assms(1) by (metis append_Cons append_butlast_last_id append_assoc prefixI)
    from p q have "prefix pat ((x # a) @ butlast pat) \<or> prefix ((x # a) @ butlast pat) pat"
      by (rule prefix_same_cases)
    then show False
    proof
      assume "prefix pat ((x # a) @ butlast pat)"
      then have "sublist pat ((x # a) @ butlast pat)" by (rule prefix_imp_sublist)
      with Cons.prems show False by simp
    next
      assume r: "prefix ((x # a) @ butlast pat) pat"
      then have "length ((x # a) @ butlast pat) \<le> length pat" by (rule prefix_length_le)
      with assms(1) have "a = []" "length ((x # a) @ butlast pat) = length pat"
        by (auto simp: Suc_le_eq)
      with r have "(x # a) @ butlast pat = pat"
        by (intro prefix_same_length)
      then have "sublist pat ((x # a) @ butlast pat)" by simp
      with Cons.prems show False by simp
    qed
  qed
  from Cons.prems have "\<not> sublist pat (a @ butlast pat)"
    by (auto simp: sublist_Cons_right)
  then have "replace_first pat rep (a @ pat @ b) = a @ rep @ b" by (rule Cons.IH)
  with np show ?case by simp
qed

lemma length_dec_nat_1: "n < 10 \<Longrightarrow> length (dec_nat n) = 1"
  by (subst dec_nat.simps) simp

lemma length_dec_nat_2: "10 \<le> n \<Longrightarrow> n < 100 \<Longrightarrow> length (dec_nat n) = 2"
  by (subst dec_nat.simps) (simp add: length_dec_nat_1)

lemma length_dec_nat_3: "100 \<le> n \<Longrightarrow> n < 1000 \<Longrightarrow> length (dec_nat n) = 3"
  by (subst dec_nat.simps) (simp add: length_dec_nat_2)

lemma length_dec_nat_4: "1000 \<le> n \<Longrightarrow> n < 10000 \<Longrightarrow> length (dec_nat n) = 4"
  by (subst dec_nat.simps) (simp add: length_dec_nat_3)

lemma length_pad2: "n < 100 \<Longrightarrow> length (padStart0 2 (dec_nat n)) = 2"
  by (cases "n < 10") (simp_all add: padStart0_def length_dec_nat_1 length_dec_nat_2)

lemma length_year: "1000 \<le> y \<Longrightarrow> y \<le> 9999 \<Longrightarrow> length (dec_int y) = 4"
  by (simp add: dec_int_def length_dec_nat_4)

text \<open>
  C4, as stated, has the filter return the string form of every value that is not a
  date and does not parse as one, and print a four-digit year.  The filter first
  returns the empty string for every falsy value: \<^verbatim>\<open>false\<close> is not a date and does not
  parse as one, and the filter gives the empty string for it, not \<^verbatim>\<open>false\<close>.  The year
  is printed as it is: 999 gives three digits.
\<close>

theorem date_filter_counterexample:
  "date_parse example_runtime (js_String example_runtime (JBool False)) = InvalidDate \<and>
   js_String example_runtime (JBool False) = ''false'' \<and>
   date_filter example_runtime (JBool False) (Some ''YYYY-MM-DD'') = [] \<and>
   formatDate \<lparr>getFullYear = 999, getMonth = 0, getDate = 5, getHours = 0, getMinutes = 0,
      getSeconds = 0\<rparr> ''YYYY-MM-DD'' = ''999-01-05''"
  by (intro conjI; code_simp)

text \<open>
  C4, amended: the filter returns the empty string for every falsy value (\<^verbatim>\<open>null\<close>,
  \<^verbatim>\<open>undefined\<close>, \<^verbatim>\<open>false\<close>, 0, NaN, the empty string); for a truthy value that is not
  a native date and does not parse as a valid date it returns the value's string form;
  for a valid date (a native one, or a truthy value that parses as one) it replaces, in
  the order YYYY, MM, DD, HH, mm, ss, the first occurrence of each token, if there is
  one, by the year in decimal (four digits for the years 1000 to 9999) and by the other
  components padded to two digits.  The date 5 January 2024 formatted with
  \<^verbatim>\<open>YYYY-MM-DD\<close> is \<^verbatim>\<open>2024-01-05\<close>.
\<close>

theorem date_filter_semantics:
  "(\<not> truthy rt v \<longrightarrow> date_filter rt v fmt = []) \<and>
   date_filter rt JNull fmt = [] \<and> date_filter rt JUndefined fmt = [] \<and>
   (truthy rt v \<and> (\<forall>d. v \<noteq> JDate d) \<and> date_parse rt (js_String rt v) = InvalidDate \<longrightarrow>
      date_filter rt v fmt = js_String rt v) \<and>
   (truthy rt v \<and> (\<forall>d. v \<noteq> JDate d) \<and> date_parse rt (js_String rt v) = ValidDate t \<longrightarrow>
      date_filter rt v fmt = formatDate t (case fmt of None \<Rightarrow> ''YYYY-MM-DD'' | Some f \<Rightarrow> f)) \<and>
   date_filter rt (JDate (ValidDate t)) fmt =
      formatDate t (case fmt of None \<Rightarrow> ''YYYY-MM-DD'' | Some f \<Rightarrow> f) \<and>
   formatDate t f =
      foldl (\<lambda>s (tok, rep). replace_first tok rep s) f
        [(''YYYY'', dec_int (getFullYear t)),
         (''MM'', padStart0 2 (dec_nat (getMonth t + 1))),
         (''DD'', padStart0 2 (dec_nat (getDate t))),
         (''HH'', padStart0 2 (dec_nat (getHours t))),
         (''mm'', padStart0 2 (dec_nat (getMinutes t))),
         (''ss'', padStart0 2 (dec_nat (getSeconds t)))] \<and>
   (\<forall>tok rep s. \<not> sublist tok s \<longrightarrow> replace_first tok rep s = s) \<and>
   (\<forall>tok rep a b. tok \<noteq> [] \<and> \<not> sublist tok (a @ butlast tok) \<longrightarrow>
      replace_first tok rep (a @ tok @ b) = a @ rep @ b) \<and>
   (\<forall>n<100. length (padStart0 2 (dec_nat n)) = 2) \<and>
   (1000 \<le> getFullYear t \<and> getFullYear t \<le> 9999 \<longrightarrow> length (dec_int (getFullYear t)) = 4) \<and>
   date_filter rt
     (JDate (ValidDate \<lparr>getFullYear = 2024, getMonth = 0, getDate = 5, getHours = 0,
        getMinutes = 0, getSeconds = 0\<rparr>)) (Some ''YYYY-MM-DD'') = ''2024-01-05''"
proof (intro conjI)
  show "\<not> truthy rt v \<longrightarrow> date_filter rt v fmt = []"
    by (simp add: date_filter_def)
  show "date_filter rt JNull fmt = []" "date_filter rt JUndefined fmt = []"
    by (simp_all add: date_filter_def)
  show "truthy rt v \<and> (\<forall>d. v \<noteq> JDate d) \<and> date_parse rt (js_String rt v) = InvalidDate \<longrightarrow>
      date_filter rt v fmt = js_String rt v"
    by (cases v) (auto simp: date_filter_def Let_def)
  show "truthy rt v \<and> (\<forall>d. v \<noteq> JDate d) \<and> date_parse rt (js_String rt v) = ValidDate t \<longrightarrow>
      date_filter rt v fmt = formatDate t (case fmt of None \<Rightarrow> ''YYYY-MM-DD'' | Some f \<Rightarrow> f)"
    by (cases v) (auto simp: date_filter_def Let_def)
  show "date_filter rt (JDate (ValidDate t)) fmt =
      formatDate t (case fmt of None \<Rightarrow> ''YYYY-MM-DD'' | Some f \<Rightarrow> f)"
    by (simp add: date_filter_def Let_def)
  show "formatDate t f =
      foldl (\<lambda>s (tok, rep). replace_first tok rep s) f
        [(''YYYY'', dec_int (getFullYear t)),
         (''MM'', padStart0 2 (dec_nat (getMonth t + 1))),
         (''DD'', padStart0 2 (dec_nat (getDate t))),
         (''HH'', padStart0 2 (dec_nat (getHours t))),
         (''mm'', padStart0 2 (dec_nat (getMinutes t))),
         (''ss'', padStart0 2 (dec_nat (getSeconds t)))]"
    by (simp add: formatDate_def Let_def)
  show "\<forall>tok rep s. \<not> sublist tok s \<longrightarrow> replace_first tok rep s = s"
    by (simp add: replace_first_absent)
  show "\<forall>tok rep a b. tok \<noteq> [] \<and> \<not> sublist tok (a @ butlast tok) \<longrightarrow>
      replace_first tok rep (a @ tok @ b) = a @ rep @ b"
    using replace_first_first by blast
  show "\<forall>n<100. length (padStart0 2 (dec_nat n)) = 2"
    by (simp add: length_pad2)
  show "1000 \<le> getFullYear t \<and> getFullYear t \<le> 9999 \<longrightarrow> length (dec_int (getFullYear t)) = 4"
    by (simp add: length_year)
  have "formatDate \<lparr>getFullYear = 2024, getMonth = 0, getDate = 5, getHours = 0,
        getMinutes = 0, getSeconds = 0\<rparr> ''YYYY-MM-DD'' = ''2024-01-05''"
    by code_simp
  then show "date_filter rt
     (JDate (ValidDate \<lparr>getFullYear = 2024, getMonth = 0, getDate = 5, getHours = 0,
        getMinutes = 0, getSeconds = 0\<rparr>)) (Some ''YYYY-MM-DD'') = ''2024-01-05''"
    by (simp add: date_filter_def Let_def)
qed

theorem date_filter_semantics_witness:
  "\<not> truthy example_runtime (JNum 0) \<and> date_filter example_runtime (JNum 0) None = [] \<and>
   truthy example_runtime (JStr ''not-a-date'') \<and>
   date_parse example_runtime (js_String example_runtime (JStr ''not-a-date'')) = InvalidDate \<and>
   date_filter example_runtime (JStr ''not-a-date'') (Some ''YYYY-MM-DD'') = ''not-a-date'' \<and>
   \<not> sublist ''HH'' ''DD/MM/YYYY YYYY'' \<and>
   replace_first ''HH'' ''09'' ''DD/MM/YYYY YYYY'' = ''DD/MM/YYYY YYYY'' \<and>
   replace_first ''YYYY'' ''2024'' (''DD/MM/'' @ ''YYYY'' @ '' YYYY'') = ''DD/MM/'' @ ''2024'' @ '' YYYY'' \<and>
   length (padStart0 2 (dec_nat 7)) = 2 \<and>
   length (dec_int 2024) = 4 \<and>
   date_filter example_runtime
     (JDate (ValidDate \<lparr>getFullYear = 2024, getMonth = 0, getDate = 5, getHours = 0,
        getMinutes = 0, getSeconds = 0\<rparr>)) (Some ''YYYY-MM-DD'') = ''2024-01-05''"
proof -
  define t where "t = \<lparr>getFullYear = 2024, getMonth = 0, getDate = 5, getHours = 0,
        getMinutes = 0, getSeconds = 0\<rparr>"
  note T0 = date_filter_semantics [of example_runtime "JNum 0" None t "''YYYY-MM-DD''"]
  note T1 = date_filter_semantics [of example_runtime "JStr ''not-a-date''" "Some ''YYYY-MM-DD''" t
      "''YYYY-MM-DD''"]
  have f: "\<not> truthy example_runtime (JNum 0)" by (simp add: example_runtime_def)
  from T0 f have a: "date_filter example_runtime (JNum 0) None = []" by (elim conjE) simp
  have tr: "truthy example_runtime (JStr ''not-a-date'')" by simp
  have nd: "\<forall>d. JStr ''not-a-date'' \<noteq> (JDate d :: nat jsval)" by simp
  have inv: "date_parse example_runtime (js_String example_runtime (JStr ''not-a-date'')) = InvalidDate"
    by (simp add: example_runtime_def)
  from T1 [THEN conjunct2, THEN conjunct2, THEN conjunct2, THEN conjunct1, THEN mp, OF conjI,
      OF tr conjI, OF nd inv]
  have b: "date_filter example_runtime (JStr ''not-a-date'') (Some ''YYYY-MM-DD'') = ''not-a-date''"
    by simp
  have ns: "\<not> sublist ''HH'' ''DD/MM/YYYY YYYY''" by code_simp
  from T0 have abs: "\<forall>tok rep s. \<not> sublist tok s \<longrightarrow> replace_first tok rep s = s"
    by (elim conjE)
  from abs ns have c: "replace_first ''HH'' ''09'' ''DD/MM/YYYY YYYY'' = ''DD/MM/YYYY YYYY''"
    by (elim allE [of _ "''HH''"] allE [of _ "''09''"] allE [of _ "''DD/MM/YYYY YYYY''"]) (erule mp)
  from T0 have fst: "\<forall>tok rep a b. tok \<noteq> [] \<and> \<not> sublist tok (a @ butlast tok) \<longrightarrow>
      replace_first tok rep (a @ tok @ b) = a @ rep @ b"
    by (elim conjE)
  have pre: "''YYYY'' \<noteq> [] \<and> \<not> sublist ''YYYY'' (''DD/MM/'' @ butlast ''YYYY'')"
    by (intro conjI; code_simp)
  from fst [THEN spec, THEN spec, THEN spec, THEN spec, THEN mp, OF pre]
  have d: "replace_first ''YYYY'' ''2024'' (''DD/MM/'' @ ''YYYY'' @ '' YYYY'') =
      ''DD/MM/'' @ ''2024'' @ '' YYYY''" .
  from T0 have "\<forall>n<100. length (padStart0 2 (dec_nat n)) = 2" by (elim conjE)
  then have e: "length (padStart0 2 (dec_nat 7)) = 2" by simp
  from T0 have "1000 \<le> getFullYear t \<and> getFullYear t \<le> 9999 \<longrightarrow> length (dec_int (getFullYear t)) = 4"
    by (elim conjE)
  then have g: "length (dec_int 2024) = 4" by (simp add: t_def)
  from T0 have h: "date_filter example_runtime
     (JDate (ValidDate \<lparr>getFullYear = 2024, getMonth = 0, getDate = 5, getHours = 0,
        getMinutes = 0, getSeconds = 0\<rparr>)) (Some ''YYYY-MM-DD'') = ''2024-01-05''"
    by (elim conjE)
  from f a tr inv b ns c d e g h show ?thesis by (intro conjI)
qed

subsection \<open>Validation\<close>

lemma tableErrors_severity: "e \<in> set (tableErrors names ts) \<Longrightarrow> severity e = Some SevError"
  by (auto simp: tableErrors_def split: if_splits)

lemma globalWarnings_severity: "e \<in> set (globalWarnings names gs) \<Longrightarrow> severity e = Some SevWarning"
  by (auto simp: globalWarnings_def split: if_splits)

lemma tableErrors_missing:
  "c \<in> set ts \<Longrightarrow> \<not> includes_name names (table_name c) \<Longrightarrow>
   \<exists>e\<in>set (tableErrors names ts). field e = ''tables.'' @ js_str (table_name c) \<and>
      severity e = Some SevError"
  by (force simp: tableErrors_def)

lemma globalWarnings_missing:
  "g \<in> set gs \<Longrightarrow> global_name g \<notin> set names \<Longrightarrow>
   \<exists>e\<in>set (globalWarnings names gs). field e = ''globals.'' @ global_name g \<and>
      severity e = Some SevWarning"
  by (force simp: globalWarnings_def includes_name_def)

lemma tableErrors_Nil:
  "tableErrors names ts = [] \<longleftrightarrow> (\<forall>c\<in>set ts. includes_name names (table_name c))"
  by (auto simp: tableErrors_def)

lemma availabilityResult_props:
  assumes w: "\<forall>e\<in>set ws. severity e = Some SevWarning"
  shows "(\<forall>e\<in>set (errors (availabilityResult (tableErrors names ts @ ws))).
            severity e = Some SevError \<or> severity e = Some SevWarning) \<and>
     (valid (availabilityResult (tableErrors names ts @ ws)) \<longleftrightarrow>
        (\<forall>e\<in>set (errors (availabilityResult (tableErrors names ts @ ws))).
            severity e \<noteq> Some SevError)) \<and>
     (valid (availabilityResult (tableErrors names ts @ ws)) \<longleftrightarrow>
        (\<forall>c\<in>set ts. includes_name names (table_name c)))"
proof -
  have fw: "filter (\<lambda>e. severity e \<noteq> Some SevWarning) ws = []"
    using w by (simp add: filter_empty_conv)
  have ft: "filter (\<lambda>e. severity e \<noteq> Some SevWarning) (tableErrors names ts) = tableErrors names ts"
    by (rule filter_True) (auto dest: tableErrors_severity)
  have v: "valid (availabilityResult (tableErrors names ts @ ws)) \<longleftrightarrow> tableErrors names ts = []"
    by (simp add: availabilityResult_def fw ft)
  have e: "errors (availabilityResult (tableErrors names ts @ ws)) = tableErrors names ts @ ws"
    by (simp add: availabilityResult_def)
  have a: "\<forall>e\<in>set (tableErrors names ts @ ws). severity e = Some SevError \<or> severity e = Some SevWarning"
    using w by (auto dest: tableErrors_severity)
  have b: "tableErrors names ts = [] \<longleftrightarrow>
      (\<forall>e\<in>set (tableErrors names ts @ ws). severity e \<noteq> Some SevError)"
  proof
    assume "tableErrors names ts = []"
    with w show "\<forall>e\<in>set (tableErrors names ts @ ws). severity e \<noteq> Some SevError" by auto
  next
    assume n: "\<forall>e\<in>set (tableErrors names ts @ ws). severity e \<noteq> Some SevError"
    show "tableErrors names ts = []"
    proof (cases "tableErrors names ts")
      case Nil
      then show ?thesis .
    next
      case (Cons x xs)
      then have "x \<in> set (tableErrors names ts)" by simp
      with n tableErrors_severity[of x names ts] show ?thesis by auto
    qed
  qed
  show ?thesis
    unfolding v e using a b tableErrors_Nil[of names ts] by blast
qed

text \<open>
  C8: when the workbook answers, \<open>validateDataAvailability\<close> returns a result that has an
  error record for every declared table whose name is not among the workbook's tables
  and a warning record for every declared global whose name is not among its named
  ranges; every record is an error or a warning; the result is valid exactly when it
  has no error record, that is, exactly when every declared table is available.
\<close>

theorem validateDataAvailability_severities:
  assumes "getTables host = Inr tableNames" and "tables template = Some ts"
    and "template_globals template = None \<or> getNamedRanges host = Inr rangeNames"
  shows "\<exists>r. validateDataAvailability host template = Inr r \<and>
     (\<forall>c\<in>set ts. \<not> includes_name tableNames (table_name c) \<longrightarrow>
        (\<exists>e\<in>set (errors r). field e = ''tables.'' @ js_str (table_name c) \<and>
           severity e = Some SevError)) \<and>
     (\<forall>gs. template_globals template = Some gs \<longrightarrow>
        (\<forall>g\<in>set gs. global_name g \<notin> set rangeNames \<longrightarrow>
           (\<exists>e\<in>set (errors r). field e = ''globals.'' @ global_name g \<and>
              severity e = Some SevWarning))) \<and>
     (\<forall>e\<in>set (errors r). severity e = Some SevError \<or> severity e = Some SevWarning) \<and>
     (valid r \<longleftrightarrow> (\<forall>e\<in>set (errors r). severity e \<noteq> Some SevError)) \<and>
     (valid r \<longleftrightarrow> (\<forall>c\<in>set ts. includes_name tableNames (table_name c)))"
proof -
  define ws where "ws = (case template_globals template of None \<Rightarrow> []
    | Some gs \<Rightarrow> globalWarnings rangeNames gs)"
  define r where "r = availabilityResult (tableErrors tableNames ts @ ws)"
  have w: "\<forall>e\<in>set ws. severity e = Some SevWarning"
    by (auto simp: ws_def dest: globalWarnings_severity split: option.splits)
  have run: "validateDataAvailability host template = Inr r"
    using assms by (auto simp: validateDataAvailability_def Let_def r_def ws_def split: option.splits)
  have er: "errors r = tableErrors tableNames ts @ ws"
    by (simp add: r_def availabilityResult_def)
  have t: "\<forall>c\<in>set ts. \<not> includes_name tableNames (table_name c) \<longrightarrow>
        (\<exists>e\<in>set (errors r). field e = ''tables.'' @ js_str (table_name c) \<and>
           severity e = Some SevError)"
    unfolding er using tableErrors_missing[of _ ts tableNames] by auto
  have g: "\<forall>gs. template_globals template = Some gs \<longrightarrow>
        (\<forall>g\<in>set gs. global_name g \<notin> set rangeNames \<longrightarrow>
           (\<exists>e\<in>set (errors r). field e = ''globals.'' @ global_name g \<and>
              severity e = Some SevWarning))"
    unfolding er using globalWarnings_missing[of _ _ rangeNames] by (auto simp: ws_def)
  note p = availabilityResult_props [OF w, of tableNames ts, folded r_def]
  from p have p1: "\<forall>e\<in>set (errors r). severity e = Some SevError \<or> severity e = Some SevWarning"
    by (rule conjunct1)
  from p have p2: "valid r \<longleftrightarrow> (\<forall>e\<in>set (errors r). severity e \<noteq> Some SevError)"
    by (rule conjunct2 [THEN conjunct1])
  from p have p3: "valid r \<longleftrightarrow> (\<forall>c\<in>set ts. includes_name tableNames (table_name c))"
    by (rule conjunct2 [THEN conjunct2])
  from run t g p1 p2 p3 show ?thesis
    by (intro exI [of _ r] conjI)
qed

theorem validateDataAvailability_severities_witness:
  "(let template =
          \<lparr>metadata = None,
           tables = Some [\<lparr>table_name = Some ''Orders'', columnMap = None, valueMappings = None\<rparr>,
                          \<lparr>table_name = Some ''Missing'', columnMap = None, valueMappings = None\<rparr>],
           template_globals =
             Some [\<lparr>global_name = ''project'', global_type = None, defaultValue = None\<rparr>,
                   \<lparr>global_name = ''client'', global_type = Some TString, defaultValue = None\<rparr>],
           outputs = None\<rparr>
    in \<exists>r. validateDataAvailability example_host template = Inr r \<and> \<not> valid r \<and>
         (\<exists>e\<in>set (errors r). field e = ''tables.Missing'' \<and> severity e = Some SevError) \<and>
         (\<exists>e\<in>set (errors r). field e = ''globals.client'' \<and> severity e = Some SevWarning))"
proof -
  define t1 :: "nat TableConfig" where
    "t1 = \<lparr>table_name = Some ''Orders'', columnMap = None, valueMappings = None\<rparr>"
  define t2 :: "nat TableConfig" where
    "t2 = \<lparr>table_name = Some ''Missing'', columnMap = None, valueMappings = None\<rparr>"
  define g1 :: "nat GlobalConfig" where
    "g1 = \<lparr>global_name = ''project'', global_type = None, defaultValue = None\<rparr>"
  define g2 :: "nat GlobalConfig" where
    "g2 = \<lparr>global_name = ''client'', global_type = Some TString, defaultValue = None\<rparr>"
  define t :: "nat AddInTemplate" where
    "t = \<lparr>metadata = None, tables = Some [t1, t2], template_globals = Some [g1, g2],
          outputs = None\<rparr>"
  have h: "getTables example_host = Inr [''Orders'']" "tables t = Some [t1, t2]"
    "template_globals t = None \<or> getNamedRanges example_host = Inr [''project'']"
    by (simp_all add: example_host_def t_def)
  from validateDataAvailability_severities [OF h] obtain r where
    run: "validateDataAvailability example_host t = Inr r"
    and te: "\<forall>c\<in>set [t1, t2]. \<not> includes_name [''Orders''] (table_name c) \<longrightarrow>
        (\<exists>e\<in>set (errors r). field e = ''tables.'' @ js_str (table_name c) \<and>
           severity e = Some SevError)"
    and gw: "\<forall>gs. template_globals t = Some gs \<longrightarrow>
        (\<forall>g\<in>set gs. global_name g \<notin> set [''project''] \<longrightarrow>
           (\<exists>e\<in>set (errors r). field e = ''globals.'' @ global_name g \<and>
              severity e = Some SevWarning))"
    and v: "valid r \<longleftrightarrow> (\<forall>c\<in>set [t1, t2]. includes_name [''Orders''] (table_name c))"
    by (elim exE conjE)
  have miss: "\<not> includes_name [''Orders''] (table_name t2)"
    by (simp add: includes_name_def t2_def)
  from v miss have nv: "\<not> valid r" by simp
  from te miss have e1: "\<exists>e\<in>set (errors r). field e = ''tables.'' @ js_str (table_name t2) \<and>
           severity e = Some SevError"
    by simp
  then have e1': "\<exists>e\<in>set (errors r). field e = ''tables.Missing'' \<and> severity e = Some SevError"
    by (simp add: t2_def js_str_def)
  have "template_globals t = Some [g1, g2]" by (simp add: t_def)
  with gw have "\<forall>g\<in>set [g1, g2]. global_name g \<notin> set [''project''] \<longrightarrow>
           (\<exists>e\<in>set (errors r). field e = ''globals.'' @ global_name g \<and>
              severity e = Some SevWarning)"
    by simp
  then have "global_name g2 \<notin> set [''project''] \<longrightarrow>
           (\<exists>e\<in>set (errors r). field e = ''globals.'' @ global_name g2 \<and>
              severity e = Some SevWarning)"
    by simp
  then have e2: "\<exists>e\<in>set (errors r). field e = ''globals.client'' \<and> severity e = Some SevWarning"
    by (simp add: g2_def)
  from run nv e1' e2 show ?thesis
    unfolding Let_def t_def t1_def t2_def g1_def g2_def by (intro exI [of _ r] conjI)
qed

lemma validateTemplate_errors:
  "errors (validateTemplate t) = nameCheck t @ versionCheck t @ tablesCheck t @ outputsCheck t"
  unfolding validateTemplate_def Let_def nameCheck_def versionCheck_def tablesCheck_def
    outputsCheck_def nameError_def versionError_def tablesError_def outputsError_def
    tableNameErrors_def outputFieldErrors_def tableNameError_def outputTemplateError_def
    outputFilenameError_def
  by (simp add: length_Object_entries split: option.splits)

lemma validateTemplate_valid:
  "valid (validateTemplate t) \<longleftrightarrow> errors (validateTemplate t) = []"
  by (simp add: validateTemplate_def Let_def)

lemma in_tableNameErrors:
  "e \<in> set (tableNameErrors ts) \<longleftrightarrow>
     (\<exists>i<length ts. not_str (table_name (ts ! i)) \<and> e = tableNameError i)"
proof
  assume "e \<in> set (tableNameErrors ts)"
  then show "\<exists>i<length ts. not_str (table_name (ts ! i)) \<and> e = tableNameError i"
    by (auto simp: tableNameErrors_def in_set_enumerate_eq split: if_splits)
next
  assume "\<exists>i<length ts. not_str (table_name (ts ! i)) \<and> e = tableNameError i"
  then obtain i where i: "i < length ts" "not_str (table_name (ts ! i))" "e = tableNameError i"
    by auto
  then have "(i, ts ! i) \<in> set (enumerate 0 ts)"
    by (simp add: in_set_enumerate_eq)
  with i show "e \<in> set (tableNameErrors ts)"
    by (auto simp: tableNameErrors_def intro!: bexI [where x = "(i, ts ! i)"])
qed

lemma in_outputFieldErrors:
  "e \<in> set (outputFieldErrors os) \<longleftrightarrow>
     (\<exists>(nm, out) \<in> set os.
        (not_str (cfg_template out) \<and> e = outputTemplateError nm) \<or>
        (not_str (cfg_filename out) \<and> e = outputFilenameError nm))"
  by (auto simp: outputFieldErrors_def split: if_splits)

lemma length_tableNameErrors_enumerate:
  "length (concat (map (\<lambda>(index, config).
       if not_str (table_name config) then [tableNameError index] else []) (enumerate n ts))) =
   length (filter (\<lambda>c. not_str (table_name c)) ts)"
  by (induction ts arbitrary: n) simp_all

lemma length_tableNameErrors:
  "length (tableNameErrors ts) = length (filter (\<lambda>c. not_str (table_name c)) ts)"
  by (simp add: tableNameErrors_def length_tableNameErrors_enumerate)

lemma length_outputFieldErrors:
  "length (outputFieldErrors os) =
     length (filter (\<lambda>(nm, out). not_str (cfg_template out)) os) +
     length (filter (\<lambda>(nm, out). not_str (cfg_filename out)) os)"
  by (induction os) (auto simp: outputFieldErrors_def)

lemma length_filter_Object_entries:
  "length (filter P (Object_entries os)) = length (filter P os)"
proof -
  have "mset (filter P (Object_entries os)) = mset (filter P os)"
    by (simp add: mset_Object_entries)
  then show ?thesis by (metis size_mset)
qed

lemma tableNameErrors_message: "e \<in> set (tableNameErrors ts) \<Longrightarrow> message e = ''Table name is required''"
  by (auto simp: in_tableNameErrors tableNameError_def)

lemma outputFieldErrors_message:
  "e \<in> set (outputFieldErrors os) \<Longrightarrow>
   message e = ''Template content is required'' \<or> message e = ''Filename is required''"
  by (auto simp: in_outputFieldErrors outputTemplateError_def outputFilenameError_def)

lemma messages:
  "message nameError = ''Template name is required''"
  "message versionError = ''Template version is required''"
  "message tablesError = ''At least one table mapping is required''"
  "message outputsError = ''At least one output is required''"
  by (simp_all add: nameError_def versionError_def tablesError_def outputsError_def)

lemma top_distinct:
  "nameError \<noteq> versionError" "nameError \<noteq> tablesError" "nameError \<noteq> outputsError"
  "versionError \<noteq> tablesError" "versionError \<noteq> outputsError" "tablesError \<noteq> outputsError"
  by (simp_all add: nameError_def versionError_def tablesError_def outputsError_def)

lemma top_not_nested:
  "nameError \<notin> set (tableNameErrors ts)" "nameError \<notin> set (outputFieldErrors os)"
  "versionError \<notin> set (tableNameErrors ts)" "versionError \<notin> set (outputFieldErrors os)"
  "tablesError \<notin> set (tableNameErrors ts)" "tablesError \<notin> set (outputFieldErrors os)"
  "outputsError \<notin> set (tableNameErrors ts)" "outputsError \<notin> set (outputFieldErrors os)"
  by (auto dest!: tableNameErrors_message outputFieldErrors_message simp: messages)

lemma in_checks:
  "e \<in> set (nameCheck t) \<longleftrightarrow> e = nameError \<and> (case metadata t of None \<Rightarrow> True | Some m \<Rightarrow> not_str (meta_name m))"
  "e \<in> set (versionCheck t) \<longleftrightarrow> e = versionError \<and> (case metadata t of None \<Rightarrow> True | Some m \<Rightarrow> not_str (version m))"
  by (auto simp: nameCheck_def versionCheck_def)

lemma tablesError_in: "tablesError \<in> set (tablesCheck t) \<longleftrightarrow> tables t = None \<or> tables t = Some []"
  by (auto simp: tablesCheck_def top_not_nested split: option.splits)

lemma outputsError_in: "outputsError \<in> set (outputsCheck t) \<longleftrightarrow> outputs t = None \<or> outputs t = Some []"
  by (auto simp: outputsCheck_def top_not_nested split: option.splits)

lemma not_in_tablesCheck:
  "nameError \<notin> set (tablesCheck t)" "versionError \<notin> set (tablesCheck t)" "outputsError \<notin> set (tablesCheck t)"
  using top_distinct by (auto simp: tablesCheck_def top_not_nested split: option.splits)

lemma not_in_outputsCheck:
  "nameError \<notin> set (outputsCheck t)" "versionError \<notin> set (outputsCheck t)" "tablesError \<notin> set (outputsCheck t)"
  using top_distinct by (auto simp: outputsCheck_def top_not_nested split: option.splits)

lemma tableNameErrors_Nil:
  "(\<forall>c\<in>set ts. \<not> not_str (table_name c)) \<Longrightarrow> tableNameErrors ts = []"
  by (auto simp: tableNameErrors_def in_set_enumerate_eq)

lemma in_tablesCheck:
  "e \<in> set (tablesCheck t) \<longleftrightarrow>
     ((tables t = None \<or> tables t = Some []) \<and> e = tablesError) \<or>
     (\<exists>ts i. tables t = Some ts \<and> i < length ts \<and> not_str (table_name (ts ! i)) \<and>
        e = tableNameError i)"
  by (auto simp: tablesCheck_def in_tableNameErrors split: option.splits)

lemma in_outputsCheck:
  "e \<in> set (outputsCheck t) \<longleftrightarrow>
     ((outputs t = None \<or> outputs t = Some []) \<and> e = outputsError) \<or>
     (\<exists>os nm out. outputs t = Some os \<and> (nm, out) \<in> set os \<and>
        ((not_str (cfg_template out) \<and> e = outputTemplateError nm) \<or>
         (not_str (cfg_filename out) \<and> e = outputFilenameError nm)))"
  by (auto simp: outputsCheck_def in_outputFieldErrors set_Object_entries split: option.splits)

lemma length_checks:
  "length (nameCheck t) =
     (if (case metadata t of None \<Rightarrow> True | Some m \<Rightarrow> not_str (meta_name m)) then 1 else 0)"
  "length (versionCheck t) =
     (if (case metadata t of None \<Rightarrow> True | Some m \<Rightarrow> not_str (version m)) then 1 else 0)"
  "length (tablesCheck t) =
     (case tables t of
        None \<Rightarrow> 1
      | Some ts \<Rightarrow> if ts = [] then 1 else length (filter (\<lambda>c. not_str (table_name c)) ts))"
  "length (outputsCheck t) =
     (case outputs t of
        None \<Rightarrow> 1
      | Some os \<Rightarrow>
          if os = [] then 1
          else length (filter (\<lambda>(nm, out). not_str (cfg_template out)) os) +
               length (filter (\<lambda>(nm, out). not_str (cfg_filename out)) os))"
  by (simp_all add: nameCheck_def versionCheck_def tablesCheck_def outputsCheck_def
      length_tableNameErrors length_outputFieldErrors length_filter_Object_entries
      split: option.splits)

text \<open>
  C9: \<open>validateTemplate\<close> runs all its checks, and each independently of the others.
  The record of each top-level check is in the result exactly when that check fails;
  every table without a name has its record, by its index, and every output without a
  template or without a file name has the record of that field, by its key, whatever
  the other checks find.  The result holds no other record, and as many records as
  there are failures; it is the records of the name check, the version check, the
  tables check and the outputs check, in this order, and it is valid exactly when there
  is no record.  On a template whose only defects are a missing version and an empty or
  absent set of outputs, the result is invalid and holds exactly the two records of
  these checks.
\<close>

theorem validateTemplate_runs_all_checks:
  "(nameError \<in> set (errors (validateTemplate t)) \<longleftrightarrow>
      (case metadata t of None \<Rightarrow> True | Some m \<Rightarrow> not_str (meta_name m))) \<and>
   (versionError \<in> set (errors (validateTemplate t)) \<longleftrightarrow>
      (case metadata t of None \<Rightarrow> True | Some m \<Rightarrow> not_str (version m))) \<and>
   (tablesError \<in> set (errors (validateTemplate t)) \<longleftrightarrow>
      (tables t = None \<or> tables t = Some [])) \<and>
   (outputsError \<in> set (errors (validateTemplate t)) \<longleftrightarrow>
      (outputs t = None \<or> outputs t = Some [])) \<and>
   (\<forall>ts i. tables t = Some ts \<and> i < length ts \<and> not_str (table_name (ts ! i)) \<longrightarrow>
      tableNameError i \<in> set (errors (validateTemplate t))) \<and>
   (\<forall>os nm out. outputs t = Some os \<and> (nm, out) \<in> set os \<and> not_str (cfg_template out) \<longrightarrow>
      outputTemplateError nm \<in> set (errors (validateTemplate t))) \<and>
   (\<forall>os nm out. outputs t = Some os \<and> (nm, out) \<in> set os \<and> not_str (cfg_filename out) \<longrightarrow>
      outputFilenameError nm \<in> set (errors (validateTemplate t))) \<and>
   (\<forall>e \<in> set (errors (validateTemplate t)).
      e = nameError \<or> e = versionError \<or> e = tablesError \<or> e = outputsError \<or>
      (\<exists>ts i. tables t = Some ts \<and> i < length ts \<and> not_str (table_name (ts ! i)) \<and>
         e = tableNameError i) \<or>
      (\<exists>os nm out. outputs t = Some os \<and> (nm, out) \<in> set os \<and>
         ((not_str (cfg_template out) \<and> e = outputTemplateError nm) \<or>
          (not_str (cfg_filename out) \<and> e = outputFilenameError nm)))) \<and>
   length (errors (validateTemplate t)) =
     (if (case metadata t of None \<Rightarrow> True | Some m \<Rightarrow> not_str (meta_name m)) then 1 else 0) +
     (if (case metadata t of None \<Rightarrow> True | Some m \<Rightarrow> not_str (version m)) then 1 else 0) +
     (case tables t of
        None \<Rightarrow> 1
      | Some ts \<Rightarrow> if ts = [] then 1 else length (filter (\<lambda>c. not_str (table_name c)) ts)) +
     (case outputs t of
        None \<Rightarrow> 1
      | Some os \<Rightarrow>
          if os = [] then 1
          else length (filter (\<lambda>(nm, out). not_str (cfg_template out)) os) +
               length (filter (\<lambda>(nm, out). not_str (cfg_filename out)) os)) \<and>
   errors (validateTemplate t) = nameCheck t @ versionCheck t @ tablesCheck t @ outputsCheck t \<and>
   (valid (validateTemplate t) \<longleftrightarrow> errors (validateTemplate t) = []) \<and>
   ((\<exists>m ts. metadata t = Some m \<and> \<not> not_str (meta_name m) \<and> not_str (version m) \<and>
       tables t = Some ts \<and> ts \<noteq> [] \<and> (\<forall>c\<in>set ts. \<not> not_str (table_name c)) \<and>
       (outputs t = None \<or> outputs t = Some [])) \<longrightarrow>
    \<not> valid (validateTemplate t) \<and> errors (validateTemplate t) = [versionError, outputsError])"
proof (intro conjI)
  show "nameError \<in> set (errors (validateTemplate t)) \<longleftrightarrow>
      (case metadata t of None \<Rightarrow> True | Some m \<Rightarrow> not_str (meta_name m))"
    using top_distinct
    by (simp add: validateTemplate_errors in_checks not_in_tablesCheck not_in_outputsCheck)
  show "versionError \<in> set (errors (validateTemplate t)) \<longleftrightarrow>
      (case metadata t of None \<Rightarrow> True | Some m \<Rightarrow> not_str (version m))"
    using top_distinct
    by (auto simp add: validateTemplate_errors in_checks not_in_tablesCheck not_in_outputsCheck)
  show "tablesError \<in> set (errors (validateTemplate t)) \<longleftrightarrow>
      (tables t = None \<or> tables t = Some [])"
    using top_distinct
    by (auto simp add: validateTemplate_errors in_checks tablesError_in not_in_outputsCheck)
  show "outputsError \<in> set (errors (validateTemplate t)) \<longleftrightarrow>
      (outputs t = None \<or> outputs t = Some [])"
    using top_distinct
    by (auto simp add: validateTemplate_errors in_checks outputsError_in not_in_tablesCheck)
  show "\<forall>ts i. tables t = Some ts \<and> i < length ts \<and> not_str (table_name (ts ! i)) \<longrightarrow>
      tableNameError i \<in> set (errors (validateTemplate t))"
  proof (intro allI impI, elim conjE)
    fix ts i
    assume "tables t = Some ts" "i < length ts" "not_str (table_name (ts ! i))"
    then have "tableNameError i \<in> set (tablesCheck t)"
      unfolding in_tablesCheck by (intro disjI2 exI [of _ ts] exI [of _ i]) simp
    then show "tableNameError i \<in> set (errors (validateTemplate t))"
      by (simp add: validateTemplate_errors)
  qed
  show "\<forall>os nm out. outputs t = Some os \<and> (nm, out) \<in> set os \<and> not_str (cfg_template out) \<longrightarrow>
      outputTemplateError nm \<in> set (errors (validateTemplate t))"
  proof (intro allI impI, elim conjE)
    fix os nm out
    assume "outputs t = Some os" "(nm, out) \<in> set os" "not_str (cfg_template out)"
    then have "outputTemplateError nm \<in> set (outputsCheck t)"
      unfolding in_outputsCheck by (intro disjI2 exI [of _ os] exI [of _ nm] exI [of _ out]) simp
    then show "outputTemplateError nm \<in> set (errors (validateTemplate t))"
      by (simp add: validateTemplate_errors)
  qed
  show "\<forall>os nm out. outputs t = Some os \<and> (nm, out) \<in> set os \<and> not_str (cfg_filename out) \<longrightarrow>
      outputFilenameError nm \<in> set (errors (validateTemplate t))"
  proof (intro allI impI, elim conjE)
    fix os nm out
    assume "outputs t = Some os" "(nm, out) \<in> set os" "not_str (cfg_filename out)"
    then have "outputFilenameError nm \<in> set (outputsCheck t)"
      unfolding in_outputsCheck by (intro disjI2 exI [of _ os] exI [of _ nm] exI [of _ out]) simp
    then show "outputFilenameError nm \<in> set (errors (validateTemplate t))"
      by (simp add: validateTemplate_errors)
  qed
  show "\<forall>e \<in> set (errors (validateTemplate t)).
      e = nameError \<or> e = versionError \<or> e = tablesError \<or> e = outputsError \<or>
      (\<exists>ts i. tables t = Some ts \<and> i < length ts \<and> not_str (table_name (ts ! i)) \<and>
         e = tableNameError i) \<or>
      (\<exists>os nm out. outputs t = Some os \<and> (nm, out) \<in> set os \<and>
         ((not_str (cfg_template out) \<and> e = outputTemplateError nm) \<or>
          (not_str (cfg_filename out) \<and> e = outputFilenameError nm)))"
  proof
    fix e
    assume "e \<in> set (errors (validateTemplate t))"
    then consider "e \<in> set (nameCheck t)" | "e \<in> set (versionCheck t)"
      | "e \<in> set (tablesCheck t)" | "e \<in> set (outputsCheck t)"
      by (auto simp: validateTemplate_errors)
    then show "e = nameError \<or> e = versionError \<or> e = tablesError \<or> e = outputsError \<or>
      (\<exists>ts i. tables t = Some ts \<and> i < length ts \<and> not_str (table_name (ts ! i)) \<and>
         e = tableNameError i) \<or>
      (\<exists>os nm out. outputs t = Some os \<and> (nm, out) \<in> set os \<and>
         ((not_str (cfg_template out) \<and> e = outputTemplateError nm) \<or>
          (not_str (cfg_filename out) \<and> e = outputFilenameError nm)))"
    proof cases
      case 1
      then show ?thesis by (simp add: in_checks)
    next
      case 2
      then show ?thesis by (simp add: in_checks)
    next
      case 3
      then have "((tables t = None \<or> tables t = Some []) \<and> e = tablesError) \<or>
        (\<exists>ts i. tables t = Some ts \<and> i < length ts \<and> not_str (table_name (ts ! i)) \<and>
          e = tableNameError i)"
        by (simp only: in_tablesCheck)
      then show ?thesis by (elim disjE conjE) simp_all
    next
      case 4
      then have "((outputs t = None \<or> outputs t = Some []) \<and> e = outputsError) \<or>
        (\<exists>os nm out. outputs t = Some os \<and> (nm, out) \<in> set os \<and>
          ((not_str (cfg_template out) \<and> e = outputTemplateError nm) \<or>
           (not_str (cfg_filename out) \<and> e = outputFilenameError nm)))"
        by (simp only: in_outputsCheck)
      then show ?thesis by (elim disjE conjE) simp_all
    qed
  qed
  show "length (errors (validateTemplate t)) =
     (if (case metadata t of None \<Rightarrow> True | Some m \<Rightarrow> not_str (meta_name m)) then 1 else 0) +
     (if (case metadata t of None \<Rightarrow> True | Some m \<Rightarrow> not_str (version m)) then 1 else 0) +
     (case tables t of
        None \<Rightarrow> 1
      | Some ts \<Rightarrow> if ts = [] then 1 else length (filter (\<lambda>c. not_str (table_name c)) ts)) +
     (case outputs t of
        None \<Rightarrow> 1
      | Some os \<Rightarrow>
          if os = [] then 1
          else length (filter (\<lambda>(nm, out). not_str (cfg_template out)) os) +
               length (filter (\<lambda>(nm, out). not_str (cfg_filename out)) os))"
    by (simp only: validateTemplate_errors length_append length_checks add.assoc)
  show "errors (validateTemplate t) = nameCheck t @ versionCheck t @ tablesCheck t @ outputsCheck t"
    by (rule validateTemplate_errors)
  show "valid (validateTemplate t) \<longleftrightarrow> errors (validateTemplate t) = []"
    by (rule validateTemplate_valid)
  show "(\<exists>m ts. metadata t = Some m \<and> \<not> not_str (meta_name m) \<and> not_str (version m) \<and>
       tables t = Some ts \<and> ts \<noteq> [] \<and> (\<forall>c\<in>set ts. \<not> not_str (table_name c)) \<and>
       (outputs t = None \<or> outputs t = Some [])) \<longrightarrow>
    \<not> valid (validateTemplate t) \<and> errors (validateTemplate t) = [versionError, outputsError]"
  proof (intro impI, elim exE conjE)
    fix m ts
    assume a: "metadata t = Some m" "\<not> not_str (meta_name m)" "not_str (version m)"
      "tables t = Some ts" "ts \<noteq> []" "\<forall>c\<in>set ts. \<not> not_str (table_name c)"
      "outputs t = None \<or> outputs t = Some []"
    from a have "nameCheck t = []" "versionCheck t = [versionError]" "tablesCheck t = []"
      "outputsCheck t = [outputsError]"
      by (auto simp: nameCheck_def versionCheck_def tablesCheck_def outputsCheck_def
          tableNameErrors_Nil)
    then have "errors (validateTemplate t) = [versionError, outputsError]"
      by (simp add: validateTemplate_errors)
    then show "\<not> valid (validateTemplate t) \<and> errors (validateTemplate t) = [versionError, outputsError]"
      by (simp add: validateTemplate_valid)
  qed
qed

theorem validateTemplate_runs_all_checks_witness:
  "(let t1 :: nat AddInTemplate =
          \<lparr>metadata = Some \<lparr>meta_name = Some ''Demo'', version = None, description = None\<rparr>,
           tables = Some [\<lparr>table_name = Some ''Orders'', columnMap = None,
                            valueMappings = None\<rparr>],
           template_globals = None,
           outputs = Some []\<rparr>;
        t2 :: nat AddInTemplate =
          \<lparr>metadata = Some \<lparr>meta_name = Some ''Demo'', version = None, description = None\<rparr>,
           tables = Some [\<lparr>table_name = Some ''Orders'', columnMap = None,
                            valueMappings = None\<rparr>,
                          \<lparr>table_name = None, columnMap = None, valueMappings = None\<rparr>],
           template_globals = None,
           outputs = Some [(''b'', \<lparr>cfg_filename = Some ''b.csv'', cfg_template = None,
                                     cfg_description = None\<rparr>),
                           (''2'', \<lparr>cfg_filename = None, cfg_template = Some ''x'',
                                     cfg_description = None\<rparr>)]\<rparr>
    in \<not> valid (validateTemplate t1) \<and>
       errors (validateTemplate t1) = [versionError, outputsError] \<and>
       length (errors (validateTemplate t1)) = 2 \<and>
       versionError \<in> set (errors (validateTemplate t1)) \<and>
       outputsError \<in> set (errors (validateTemplate t1)) \<and>
       \<not> valid (validateTemplate t2) \<and>
       versionError \<in> set (errors (validateTemplate t2)) \<and>
       tableNameError 1 \<in> set (errors (validateTemplate t2)) \<and>
       outputTemplateError ''b'' \<in> set (errors (validateTemplate t2)) \<and>
       outputFilenameError ''2'' \<in> set (errors (validateTemplate t2)) \<and>
       length (errors (validateTemplate t2)) = 4)"
proof -
  define m where "m = \<lparr>meta_name = Some ''Demo'', version = None, description = None\<rparr>"
  define c :: "nat TableConfig" where
    "c = \<lparr>table_name = Some ''Orders'', columnMap = None, valueMappings = None\<rparr>"
  define c' :: "nat TableConfig" where
    "c' = \<lparr>table_name = None, columnMap = None, valueMappings = None\<rparr>"
  define ob where
    "ob = \<lparr>cfg_filename = Some ''b.csv'', cfg_template = None, cfg_description = None\<rparr>"
  define o2 where
    "o2 = \<lparr>cfg_filename = None, cfg_template = Some ''x'', cfg_description = None\<rparr>"
  define t1 :: "nat AddInTemplate" where
    "t1 = \<lparr>metadata = Some m, tables = Some [c], template_globals = None, outputs = Some []\<rparr>"
  define t2 :: "nat AddInTemplate" where
    "t2 = \<lparr>metadata = Some m, tables = Some [c, c'], template_globals = None,
           outputs = Some [(''b'', ob), (''2'', o2)]\<rparr>"
  note T1 = validateTemplate_runs_all_checks [of t1]
  note T2 = validateTemplate_runs_all_checks [of t2]
  note rest4 = T2 [THEN conjunct2, THEN conjunct2, THEN conjunct2, THEN conjunct2]
  note rest8 = rest4 [THEN conjunct2, THEN conjunct2, THEN conjunct2, THEN conjunct2]
  have h: "\<exists>m ts. metadata t1 = Some m \<and> \<not> not_str (meta_name m) \<and> not_str (version m) \<and>
       tables t1 = Some ts \<and> ts \<noteq> [] \<and> (\<forall>c\<in>set ts. \<not> not_str (table_name c)) \<and>
       (outputs t1 = None \<or> outputs t1 = Some [])"
    by (rule exI [of _ m], rule exI [of _ "[c]"]) (simp add: t1_def m_def c_def not_str_def)
  from T1 have "(\<exists>m ts. metadata t1 = Some m \<and> \<not> not_str (meta_name m) \<and> not_str (version m) \<and>
       tables t1 = Some ts \<and> ts \<noteq> [] \<and> (\<forall>c\<in>set ts. \<not> not_str (table_name c)) \<and>
       (outputs t1 = None \<or> outputs t1 = Some [])) \<longrightarrow>
    \<not> valid (validateTemplate t1) \<and> errors (validateTemplate t1) = [versionError, outputsError]"
    by (elim conjE)
  from this h have r: "\<not> valid (validateTemplate t1) \<and>
      errors (validateTemplate t1) = [versionError, outputsError]"
    by (rule mp)
  from r have r1: "\<not> valid (validateTemplate t1)"
    and r2: "errors (validateTemplate t1) = [versionError, outputsError]"
    by (rule conjunct1, rule conjunct2)
  from r2 have r3: "length (errors (validateTemplate t1)) = 2"
    and r4: "versionError \<in> set (errors (validateTemplate t1))"
    and r5: "outputsError \<in> set (errors (validateTemplate t1))"
    by simp_all
  have v: "case metadata t2 of None \<Rightarrow> True | Some m \<Rightarrow> not_str (version m)"
    by (simp add: t2_def m_def not_str_def)
  from T2 [THEN conjunct2, THEN conjunct1] v
  have s1: "versionError \<in> set (errors (validateTemplate t2))"
    by (rule iffD2)
  have "tables t2 = Some [c, c'] \<and> 1 < length [c, c'] \<and> not_str (table_name ([c, c'] ! 1))"
    by (simp add: t2_def c'_def not_str_def)
  from rest4 [THEN conjunct1, THEN spec, THEN spec, THEN mp, OF this]
  have s2: "tableNameError 1 \<in> set (errors (validateTemplate t2))" .
  have "outputs t2 = Some [(''b'', ob), (''2'', o2)] \<and>
      (''b'', ob) \<in> set [(''b'', ob), (''2'', o2)] \<and> not_str (cfg_template ob)"
    by (simp add: t2_def ob_def not_str_def)
  from rest4 [THEN conjunct2, THEN conjunct1, THEN spec, THEN spec, THEN spec, THEN mp, OF this]
  have s3: "outputTemplateError ''b'' \<in> set (errors (validateTemplate t2))" .
  have "outputs t2 = Some [(''b'', ob), (''2'', o2)] \<and>
      (''2'', o2) \<in> set [(''b'', ob), (''2'', o2)] \<and> not_str (cfg_filename o2)"
    by (simp add: t2_def o2_def not_str_def)
  from rest4 [THEN conjunct2, THEN conjunct2, THEN conjunct1, THEN spec, THEN spec, THEN spec,
      THEN mp, OF this]
  have s4: "outputFilenameError ''2'' \<in> set (errors (validateTemplate t2))" .
  from rest8 [THEN conjunct1]
  have s5: "length (errors (validateTemplate t2)) = 4"
    by (simp add: t2_def m_def c_def c'_def ob_def o2_def not_str_def)
  then have "errors (validateTemplate t2) \<noteq> []"
    by auto
  with rest8 [THEN conjunct2, THEN conjunct2, THEN conjunct1]
  have s6: "\<not> valid (validateTemplate t2)"
    by simp
  from r1 r2 r3 r4 r5 s6 s1 s2 s3 s4 s5 show ?thesis
    unfolding Let_def t1_def t2_def m_def c_def c'_def ob_def o2_def by (intro conjI)
qed

end
